theory Spec2Isabelle
  imports Complex_Main
begin

section \<open>Numbers, errors and interaction records\<close>

text \<open>
  Python floats and ints are modelled as exact reals: every operation of the code that
  the theorems below talk about is an addition, a multiplication by a constant, a
  division by a count, or a \<open>min\<close>/\<open>max\<close> clamp.

  An interaction record is a Python dict with a fixed vocabulary of keys; each key is an
  optional field, \<open>None\<close> meaning that the key is absent, so that \<open>r.get(key, default)\<close>
  is a case distinction on the field.
\<close>

datatype py_error = KeyError | ValueError | AttributeError | TypeError

record interaction =
  i_type :: "string option"
  i_participants :: "string list option"
  i_outcome :: "string option"
  i_effect :: "string option"
  i_area :: "string option"
  i_service_type :: "string option"
  i_compliance :: "bool option"
  i_response_time :: "real option"
  i_resolved :: "bool option"
  i_status :: "string option"
  i_cost :: "real option"

definition mk_interaction :: "string \<Rightarrow> string list \<Rightarrow> string \<Rightarrow> interaction" where
  "mk_interaction t ps oc =
     \<lparr> i_type = Some t, i_participants = Some ps, i_outcome = Some oc, i_effect = None,
       i_area = None, i_service_type = None, i_compliance = None, i_response_time = None,
       i_resolved = None, i_status = None, i_cost = None \<rparr>"

text \<open>\<open>np.mean\<close> of a non-empty list.\<close>

definition mean :: "real list \<Rightarrow> real" where
  "mean xs = sum_list xs / real (length xs)"

section \<open>metrics/fairness.py: calculate_gini\<close>

text \<open>\<open>np.cumsum\<close>: the running sums of a list.\<close>

fun cumsum_from :: "real \<Rightarrow> real list \<Rightarrow> real list" where
  "cumsum_from acc [] = []"
| "cumsum_from acc (x # xs) = (acc + x) # cumsum_from (acc + x) xs"

definition cumsum :: "real list \<Rightarrow> real list" where
  "cumsum xs = cumsum_from 0 xs"

definition calculate_gini :: "real list \<Rightarrow> real" where
  "calculate_gini vals =
     (if vals = [] \<or> length vals < 2 then 0
      else
        let vs = sort (map (max 0) vals);
            n = length vs
        in if list_all (\<lambda>v. v = hd vs) vs then 0
           else
             let cs = cumsum vs;
                 total = last cs
             in if total = 0 then 0
                else max 0 (min 1 ((real n + 1 - 2 * sum_list cs / total) / real n)))"

section \<open>metrics/efficiency.py: calculate_efficiency\<close>

record efficiency =
  avg_response_time :: real
  resolution_rate :: real
  resource_utilization :: real
  policy_cost :: real

definition calculate_resource_usage :: "interaction list \<Rightarrow> real" where
  "calculate_resource_usage rs =
     (if rs = [] then 0
      else
        let active_interactions = length (filter (\<lambda>r. i_status r = Some ''active'') rs);
            total_capacity = length rs
        in if total_capacity = 0 then 0
           else min (real active_interactions / real total_capacity) 1)"

definition calculate_policy_implementation_cost :: "interaction list \<Rightarrow> real" where
  "calculate_policy_implementation_cost rs =
     (if rs = [] then 0
      else
        let policy_interactions = filter (\<lambda>r. i_type r = Some ''policy_implementation'') rs
        in if policy_interactions = [] then 0
           else
             let costs = map (\<lambda>r. case i_cost r of None \<Rightarrow> 0 | Some c \<Rightarrow> c) policy_interactions
             in if costs = [] then 0 else mean costs)"

definition calculate_efficiency :: "interaction list \<Rightarrow> efficiency" where
  "calculate_efficiency rs =
     (if rs = [] then
        \<lparr> avg_response_time = 0, resolution_rate = 0, resource_utilization = 0, policy_cost = 0 \<rparr>
      else
        let service_requests = filter (\<lambda>r. i_type r = Some ''service_request'') rs;
            response_times =
              (if service_requests = [] then [1]
               else map (\<lambda>r. case i_response_time r of None \<Rightarrow> 1 | Some t \<Rightarrow> t) service_requests);
            resolution_rates =
              (if service_requests = [] then [1 / 2]
               else map (\<lambda>r. if i_resolved r = Some True then 1 else 0) service_requests)
        in \<lparr> avg_response_time = mean response_times,
             resolution_rate = mean resolution_rates,
             resource_utilization = calculate_resource_usage rs,
             policy_cost = calculate_policy_implementation_cost rs \<rparr>)"

section \<open>metrics/collaboration.py: calculate_cooperation_index\<close>

text \<open>
  A round record as the driver builds it; only the \<open>interactions\<close> key is read by the
  cooperation index, through \<open>record.get('interactions', [])\<close>.
\<close>

record round_record =
  rr_round :: nat
  rr_interactions :: "interaction list option"

definition get_interactions :: "round_record \<Rightarrow> interaction list" where
  "get_interactions r = (case rr_interactions r of None \<Rightarrow> [] | Some xs \<Rightarrow> xs)"

text \<open>The body of the inner loop: the score of one interaction.\<close>

definition interaction_score :: "interaction \<Rightarrow> real" where
  "interaction_score i =
     (let outcome = (case i_outcome i of None \<Rightarrow> ''neutral'' | Some oc \<Rightarrow> oc);
          interaction_type = (case i_type i of None \<Rightarrow> '''' | Some t \<Rightarrow> t);
          score =
            (if outcome \<in> set [''success'', ''mutual_benefit'', ''win_win''] then 1
             else if outcome \<in> set [''partial_success'', ''compromise''] then 7 / 10
             else if outcome \<in> set [''neutral'', ''no_change''] then 1 / 2
             else if outcome \<in> set [''conflict'', ''failed''] then 1 / 10
             else 1 / 2)
      in if interaction_type \<in> set [''data_sharing'', ''joint_project'', ''collaboration'',
                                     ''partnership'', ''mutual_support'']
         then min 1 (score + 2 / 10)
         else score)"

text \<open>The body of the outer loop: the entry appended to \<open>cooperation_scores\<close> for one round.\<close>

definition round_cooperation :: "round_record \<Rightarrow> real" where
  "round_cooperation r =
     (let interactions = get_interactions r
      in if interactions = [] then 1 / 2 else mean (map interaction_score interactions))"

definition calculate_cooperation_index :: "round_record list \<Rightarrow> real" where
  "calculate_cooperation_index recs =
     (if recs = [] then 0 else mean (map round_cooperation recs))"

text \<open>
  The cooperation index as the specification words it: the mean of the score over all
  individual interactions of the whole history.
\<close>

definition spec_cooperation_index :: "round_record list \<Rightarrow> real" where
  "spec_cooperation_index recs = mean (map interaction_score (concat (map get_interactions recs)))"


text \<open>Two rounds of different sizes, used to compare the two definitions.\<close>

definition ex_round_a :: round_record where
  "ex_round_a = \<lparr> rr_round = 0, rr_interactions =
      Some [mk_interaction ''regulation'' [''government'', ''enterprise_0''] ''success''] \<rparr>"

definition ex_round_b :: round_record where
  "ex_round_b = \<lparr> rr_round = 1, rr_interactions =
      Some [mk_interaction ''service_provision'' [''government'', ''resident_0''] ''failed'',
            mk_interaction ''service_provision'' [''government'', ''resident_1''] ''failed'',
            mk_interaction ''service_provision'' [''government'', ''resident_2''] ''failed''] \<rparr>"

text \<open>A round without interactions.\<close>

definition ex_round_empty :: round_record where
  "ex_round_empty = \<lparr> rr_round = 2, rr_interactions = Some [] \<rparr>"

text \<open>
  The score of an interaction as the specification words it: a table from outcomes to
  scores, 0.5 for any other outcome, and a bonus of 0.2, capped at 1.0, for the
  cooperative interaction types.
\<close>

definition spec_outcome_scores :: "(string \<times> real) list" where
  "spec_outcome_scores =
     [(''success'', 1), (''mutual_benefit'', 1), (''win_win'', 1),
      (''partial_success'', 7 / 10), (''compromise'', 7 / 10),
      (''neutral'', 1 / 2),
      (''conflict'', 1 / 10), (''failed'', 1 / 10)]"

definition cooperative_types :: "string list" where
  "cooperative_types =
     [''data_sharing'', ''joint_project'', ''collaboration'', ''partnership'', ''mutual_support'']"

definition spec_interaction_score :: "interaction \<Rightarrow> real" where
  "spec_interaction_score i =
     (let base = (case map_of spec_outcome_scores
                         (case i_outcome i of None \<Rightarrow> ''neutral'' | Some oc \<Rightarrow> oc) of
                    None \<Rightarrow> 1 / 2 | Some x \<Rightarrow> x)
      in if (case i_type i of None \<Rightarrow> '''' | Some t \<Rightarrow> t) \<in> set cooperative_types
         then min 1 (base + 2 / 10) else base)"

section \<open>The random source\<close>

text \<open>
  The process-wide generator of Python's \<open>random\<close> module is modelled as an explicit
  stream of draws of \<open>random.random()\<close> together with the position of the next draw.
  \<open>random.uniform(a, b)\<close> is \<open>a + (b - a) * random()\<close>, as in the standard library. An
  event "the draw is below p" is the model's reading of "with probability p".
\<close>

type_synonym rng = "(nat \<Rightarrow> real) \<times> nat"

definition random_random :: "rng \<Rightarrow> real \<times> rng" where
  "random_random r = (fst r (snd r), (fst r, Suc (snd r)))"

definition random_uniform :: "real \<Rightarrow> real \<Rightarrow> rng \<Rightarrow> real \<times> rng" where
  "random_uniform a b r = (case random_random r of (u, r') \<Rightarrow> (a + (b - a) * u, r'))"

section \<open>simulation/environment.py: Environment.update\<close>

text \<open>
  The infrastructure dicts come from the configuration and are iterated in insertion
  order, so they are association lists. \<open>service_quality\<close> and
  \<open>infrastructure_utilization\<close> are dicts whose keys are fixed by the constructor
  (three areas; \<open>digital\<close> and \<open>physical\<close>), so each key is a field.
\<close>

record environment =
  digital_infrastructure :: "(string \<times> real) list"
  physical_infrastructure :: "(string \<times> real) list"
  service_availability :: real
  system_load :: real
  emergency_status :: bool
  update_count :: nat
  sq_core_area :: real
  sq_urban_rural_fringe :: real
  sq_rural :: real
  iu_digital :: real
  iu_physical :: real

definition update_system_load :: "environment \<Rightarrow> interaction list \<Rightarrow> environment" where
  "update_system_load env interactions =
     (let service_requests = length (filter
            (\<lambda>i. i_type i \<in> set [Some ''service_request'', Some ''data_request'', Some ''service_use''])
            interactions);
          load_factor = min 1 (real service_requests / 50);
          load = 7 / 10 * system_load env + 3 / 10 * load_factor
      in env\<lparr>system_load := max 0 (min 1 load)\<rparr>)"

definition update_service_availability :: "environment \<Rightarrow> interaction list \<Rightarrow> environment" where
  "update_service_availability env interactions =
     (let availability_change =
            (if system_load env > 8 / 10 then - (5 / 100)
             else if system_load env < 3 / 10 then 2 / 100
             else 0);
          failures = filter (\<lambda>i. i_outcome i = Some ''system_failure'') interactions;
          availability_change =
            (if failures \<noteq> [] then availability_change - 1 / 10 * real (length failures)
             else availability_change)
      in env\<lparr>service_availability :=
               max 0 (min 1 (service_availability env + availability_change))\<rparr>)"

definition check_emergency_events :: "environment \<Rightarrow> rng \<Rightarrow> environment \<times> rng" where
  "check_emergency_events env r =
     (case random_random r of (u1, r1) \<Rightarrow>
        if u1 < 2 / 100 then
          (env\<lparr>emergency_status := True,
               service_availability := service_availability env * (7 / 10)\<rparr>, r1)
        else if emergency_status env then
          (case random_random r1 of (u2, r2) \<Rightarrow>
             if u2 < 3 / 10 then (env\<lparr>emergency_status := False\<rparr>, r2) else (env, r2))
        else (env, r1))"

definition update_infrastructure_utilization ::
  "environment \<Rightarrow> interaction list \<Rightarrow> environment" where
  "update_infrastructure_utilization env interactions =
     (let digital_usage = length (filter (\<lambda>i. i_service_type i = Some ''digital'') interactions);
          physical_usage = length (filter (\<lambda>i. i_service_type i = Some ''physical'') interactions);
          total_interactions = length interactions
      in if total_interactions > 0 then
           let digital_ratio = real digital_usage / real total_interactions;
               physical_ratio = real physical_usage / real total_interactions
           in env\<lparr>iu_digital := 8 / 10 * iu_digital env + 2 / 10 * digital_ratio,
                  iu_physical := 8 / 10 * iu_physical env + 2 / 10 * physical_ratio\<rparr>
         else env)"

text \<open>One iteration of the loop over the three areas of \<open>_update_service_quality\<close>.\<close>

definition update_area_quality :: "interaction list \<Rightarrow> string \<Rightarrow> real \<Rightarrow> real" where
  "update_area_quality interactions area quality =
     (let area_interactions_list = filter
            (\<lambda>i. (case i_area i of None \<Rightarrow> ''core_area'' | Some a \<Rightarrow> a) = area) interactions
      in if area_interactions_list \<noteq> [] then
           let success_rate =
                 real (length (filter (\<lambda>i. i_outcome i = Some ''success'') area_interactions_list))
                   / real (length area_interactions_list);
               quality_change = (success_rate - 7 / 10) * (5 / 100)
           in max 0 (min 1 (quality + quality_change))
         else quality)"

definition update_service_quality :: "environment \<Rightarrow> interaction list \<Rightarrow> environment" where
  "update_service_quality env interactions =
     env\<lparr>sq_core_area := update_area_quality interactions ''core_area'' (sq_core_area env),
         sq_urban_rural_fringe :=
           update_area_quality interactions ''urban_rural_fringe'' (sq_urban_rural_fringe env),
         sq_rural := update_area_quality interactions ''rural'' (sq_rural env)\<rparr>"

text \<open>The first loop of \<open>_apply_random_changes\<close>: one draw per digital entry, in order.\<close>

fun drift_entries :: "(string \<times> real) list \<Rightarrow> rng \<Rightarrow> (string \<times> real) list \<times> rng" where
  "drift_entries [] r = ([], r)"
| "drift_entries ((area, v) # es) r =
     (case random_uniform (- 1) 1 r of (change, r1) \<Rightarrow>
        case drift_entries es r1 of (es', r2) \<Rightarrow>
          ((area, max 0 (min 100 (v + change))) # es', r2))"

definition apply_random_changes :: "environment \<Rightarrow> rng \<Rightarrow> environment \<times> rng" where
  "apply_random_changes env r =
     (case drift_entries (digital_infrastructure env) r of (d, r') \<Rightarrow>
        if emergency_status env then
          (env\<lparr>digital_infrastructure := map (\<lambda>(area, v). (area, v * (98 / 100))) d\<rparr>, r')
        else (env\<lparr>digital_infrastructure := d\<rparr>, r'))"

definition update :: "environment \<Rightarrow> interaction list \<Rightarrow> rng \<Rightarrow> environment \<times> rng" where
  "update env interactions r =
     (let env1 = env\<lparr>update_count := update_count env + 1\<rparr>;
          env2 = update_system_load env1 interactions;
          env3 = update_service_availability env2 interactions
      in case check_emergency_events env3 r of (env4, r1) \<Rightarrow>
           let env5 = update_infrastructure_utilization env4 interactions;
               env6 = update_service_quality env5 interactions
           in apply_random_changes env6 r1)"

text \<open>
  An environment in an ongoing emergency, and a random source whose every draw is 0.01
  (below the entry threshold).
\<close>

definition ex_env :: environment where
  "ex_env = \<lparr> digital_infrastructure = [(''core_area'', 80)],
              physical_infrastructure = [(''core_area'', 80)],
              service_availability = 1, system_load = 1 / 2, emergency_status = True,
              update_count = 0, sq_core_area = 9 / 10, sq_urban_rural_fringe = 7 / 10,
              sq_rural = 6 / 10, iu_digital = 6 / 10, iu_physical = 7 / 10 \<rparr>"

definition ex_rng_low :: rng where
  "ex_rng_low = (\<lambda>_. 1 / 100, 0)"

text \<open>A calm environment and a source whose every draw is 0.75 (a drift of +0.5).\<close>

definition ex_env_calm :: environment where
  "ex_env_calm = ex_env\<lparr>emergency_status := False\<rparr>"

definition ex_rng_high :: rng where
  "ex_rng_high = (\<lambda>_. 3 / 4, 0)"

section \<open>Agents\<close>

text \<open>
  An attribute is numeric or categorical; adding a number to a categorical attribute, or
  comparing one with a number, raises \<open>TypeError\<close> in Python. State values are numeric.
  \<open>behavior_modifiers\<close> and \<open>policy_modifiers\<close> are object attributes that exist only
  once a policy has installed them. Mutation in place is state passing; a function that can
  raise returns the state reached at the raise together with the error.
\<close>

datatype attr_val = ANum real | AStr string

record agent =
  agent_id :: "string option"
  area :: "string option"
  attributes :: "string \<rightharpoonup> attr_val"
  state :: "string \<rightharpoonup> real"
  behavior_modifiers :: "(string \<rightharpoonup> real) option"
  policy_modifiers :: "(string \<rightharpoonup> (string \<rightharpoonup> real)) option"

record sim =
  government :: agent
  enterprises :: "agent list"
  residents :: "agent list"
  environment :: environment

text \<open>
  A loop over a list of objects that mutates each of them and stops at the first raise:
  the objects after the raising one are left as they were.
\<close>

fun map_until_error :: "('a \<Rightarrow> 'a \<times> py_error option) \<Rightarrow> 'a list \<Rightarrow> 'a list \<times> py_error option" where
  "map_until_error f [] = ([], None)"
| "map_until_error f (x # xs) =
     (case f x of
        (x', Some e) \<Rightarrow> (x' # xs, Some e)
      | (x', None) \<Rightarrow> (case map_until_error f xs of (xs', e) \<Rightarrow> (x' # xs', e)))"

section \<open>Policy configuration\<close>

text \<open>
  A configuration value is a number, a string or a nested dict (in key order). A policy
  is a dict with the keys \<open>target\<close>, \<open>attribute_change\<close>, \<open>behavior_change\<close> and
  \<open>rule_change\<close>, each read with a default (the empty string, the empty dict).

  Python's builtin \<open>float\<close> on a string is a parameter \<open>pf\<close> of the model
  (\<open>None\<close> when it raises \<open>ValueError\<close>).
\<close>

datatype cfg = CNum real | CStr string | CDict "(string \<times> cfg) list"

record policy_config =
  p_target :: string
  p_attribute_change :: "(string \<times> cfg) list"
  p_behavior_change :: "(string \<times> cfg) list"
  p_rule_change :: "(string \<times> cfg) list"

definition is_space :: "char \<Rightarrow> bool" where
  "is_space ch = ((of_char ch :: nat) \<in> set [9, 10, 11, 12, 13, 28, 29, 30, 31, 32])"

definition strip :: "string \<Rightarrow> string" where
  "strip s = rev (dropWhile is_space (rev (dropWhile is_space s)))"

definition parse_change_value :: "(string \<Rightarrow> real option) \<Rightarrow> cfg \<Rightarrow> real" where
  "parse_change_value pf change_str =
     (case change_str of
        CNum x \<Rightarrow> x
      | CStr s \<Rightarrow> (case pf (strip s) of Some x \<Rightarrow> x | None \<Rightarrow> 0)
      | CDict d \<Rightarrow> 0)"

text \<open>\<open>d[key] = v\<close> on a dict that holds \<open>key\<close>.\<close>

definition alist_set :: "string \<Rightarrow> real \<Rightarrow> (string \<times> real) list \<Rightarrow> (string \<times> real) list" where
  "alist_set key v d = map (\<lambda>(k, x). if k = key then (k, v) else (k, x)) d"

section \<open>simulation/environment.py: Environment.apply_policy_intervention\<close>

text \<open>\<open>float(change_str.replace('+', ''))\<close>: only a string has \<open>replace\<close>.\<close>

definition env_change :: "(string \<Rightarrow> real option) \<Rightarrow> cfg \<Rightarrow> py_error + real" where
  "env_change pf change_str =
     (case change_str of
        CStr s \<Rightarrow> (case pf (filter (\<lambda>ch. ch \<noteq> CHR ''+'') s) of
                     Some x \<Rightarrow> Inr x | None \<Rightarrow> Inl ValueError)
      | _ \<Rightarrow> Inl AttributeError)"

fun apply_infra_changes ::
  "(string \<Rightarrow> real option) \<Rightarrow> (string \<times> cfg) list \<Rightarrow> (string \<times> real) list
     \<Rightarrow> (string \<times> real) list \<times> py_error option" where
  "apply_infra_changes pf [] d = (d, None)"
| "apply_infra_changes pf ((area_key, change_str) # cs) d =
     (case map_of d area_key of
        None \<Rightarrow> apply_infra_changes pf cs d
      | Some v \<Rightarrow>
          (case env_change pf change_str of
             Inl e \<Rightarrow> (d, Some e)
           | Inr change \<Rightarrow> apply_infra_changes pf cs (alist_set area_key (min 100 (v + change)) d)))"

text \<open>One of the two blocks of the method: \<open>key\<close> names the infrastructure map.\<close>

definition apply_infra_block ::
  "(string \<Rightarrow> real option) \<Rightarrow> (string \<times> cfg) list \<Rightarrow> string \<Rightarrow> (string \<times> real) list
     \<Rightarrow> (string \<times> real) list \<times> py_error option" where
  "apply_infra_block pf attribute_changes key d =
     (case map_of attribute_changes key of
        None \<Rightarrow> (d, None)
      | Some (CDict infra_changes) \<Rightarrow> apply_infra_changes pf infra_changes d
      | Some _ \<Rightarrow> (d, Some AttributeError))"

definition apply_policy_intervention ::
  "(string \<Rightarrow> real option) \<Rightarrow> environment \<Rightarrow> policy_config \<Rightarrow> environment \<times> py_error option" where
  "apply_policy_intervention pf env policy_config =
     (if p_target policy_config = ''environment'' then
        (case apply_infra_block pf (p_attribute_change policy_config) ''digital_infrastructure''
                (digital_infrastructure env) of
           (d, Some e) \<Rightarrow> (env\<lparr>digital_infrastructure := d\<rparr>, Some e)
         | (d, None) \<Rightarrow>
             (case apply_infra_block pf (p_attribute_change policy_config)
                     ''physical_infrastructure'' (physical_infrastructure env) of
                (p, e) \<Rightarrow> (env\<lparr>digital_infrastructure := d, physical_infrastructure := p\<rparr>, e)))
      else (env, None))"

section \<open>simulation/policy_engine.py: PolicyEngine\<close>

record policy_engine =
  policies :: "string \<rightharpoonup> policy_config"
  applied_policies :: "string list"
  policy_history :: "(string \<times> string \<times> policy_config) list"

text \<open>
  The loop over \<open>attribute_changes.items()\<close> shared by the resident, government and
  enterprise policies: an attribute the agent does not have is skipped, a numeric one is
  moved by the parsed change and clamped to [0,100], a categorical one raises.
\<close>

fun apply_attribute_changes ::
  "(string \<Rightarrow> real option) \<Rightarrow> (string \<times> cfg) list \<Rightarrow> (string \<rightharpoonup> attr_val)
     \<Rightarrow> (string \<rightharpoonup> attr_val) \<times> py_error option" where
  "apply_attribute_changes pf [] attrs = (attrs, None)"
| "apply_attribute_changes pf ((attr_name, change_str) # cs) attrs =
     (case attrs attr_name of
        None \<Rightarrow> apply_attribute_changes pf cs attrs
      | Some (ANum old_value) \<Rightarrow>
          apply_attribute_changes pf cs
            (attrs(attr_name \<mapsto>
               ANum (min 100 (max 0 (old_value + parse_change_value pf change_str)))))
      | Some (AStr s) \<Rightarrow> (attrs, Some TypeError))"

fun apply_behavior_changes ::
  "(string \<Rightarrow> real option) \<Rightarrow> (string \<times> cfg) list \<Rightarrow> (string \<rightharpoonup> real) option
     \<Rightarrow> (string \<rightharpoonup> real) option" where
  "apply_behavior_changes pf [] bm = bm"
| "apply_behavior_changes pf ((behavior_name, change_str) # cs) bm =
     apply_behavior_changes pf cs
       (Some ((case bm of None \<Rightarrow> Map.empty | Some m \<Rightarrow> m)
                (behavior_name \<mapsto> parse_change_value pf change_str)))"

text \<open>The body of the loop over \<open>target_residents\<close>.\<close>

definition apply_resident_changes ::
  "(string \<Rightarrow> real option) \<Rightarrow> policy_config \<Rightarrow> agent \<Rightarrow> agent \<times> py_error option" where
  "apply_resident_changes pf policy_config resident =
     (case apply_attribute_changes pf (p_attribute_change policy_config) (attributes resident) of
        (attrs, Some e) \<Rightarrow> (resident\<lparr>attributes := attrs\<rparr>, Some e)
      | (attrs, None) \<Rightarrow>
          (resident\<lparr>attributes := attrs,
                    behavior_modifiers :=
                      apply_behavior_changes pf (p_behavior_change policy_config)
                        (behavior_modifiers resident)\<rparr>, None))"

text \<open>\<open>r.attributes.get('information_literacy', 60) < 70\<close>\<close>

definition literacy_target :: "agent \<Rightarrow> py_error + bool" where
  "literacy_target r =
     (case attributes r ''information_literacy'' of
        None \<Rightarrow> Inr ((60 :: real) < 70)
      | Some (ANum x) \<Rightarrow> Inr (x < 70)
      | Some (AStr s) \<Rightarrow> Inl TypeError)"

text \<open>
  The target list is computed before any resident is changed; the loop then changes the
  targets, which are the objects of \<open>residents\<close> themselves.
\<close>

definition apply_resident_policy ::
  "(string \<Rightarrow> real option) \<Rightarrow> string \<Rightarrow> policy_config \<Rightarrow> agent list
     \<Rightarrow> agent list \<times> py_error option" where
  "apply_resident_policy pf policy_name policy_config rs =
     (if policy_name = ''digital_literacy_training'' then
        (if list_ex (\<lambda>r. literacy_target r = Inl TypeError) rs then (rs, Some TypeError)
         else map_until_error
                (\<lambda>r. if literacy_target r = Inr True
                      then apply_resident_changes pf policy_config r else (r, None)) rs)
      else map_until_error (apply_resident_changes pf policy_config) rs)"

fun apply_param_changes ::
  "(string \<Rightarrow> real option) \<Rightarrow> (string \<times> cfg) list \<Rightarrow> (string \<rightharpoonup> real) \<Rightarrow> (string \<rightharpoonup> real)" where
  "apply_param_changes pf [] m = m"
| "apply_param_changes pf ((param, change_str) # cs) m =
     apply_param_changes pf cs (m(param \<mapsto> parse_change_value pf change_str))"

text \<open>
  The loop over \<open>rule_changes.items()\<close>; a rule change that is not a dict has no
  \<open>items\<close>, after the entry for the rule has been created.
\<close>

fun apply_rule_changes ::
  "(string \<Rightarrow> real option) \<Rightarrow> (string \<times> cfg) list \<Rightarrow> (string \<rightharpoonup> (string \<rightharpoonup> real))
     \<Rightarrow> (string \<rightharpoonup> (string \<rightharpoonup> real)) \<times> py_error option" where
  "apply_rule_changes pf [] pm = (pm, None)"
| "apply_rule_changes pf ((rule_name, rule_change) # rest) pm =
     (let rule_mods = (case pm rule_name of None \<Rightarrow> Map.empty | Some m \<Rightarrow> m)
      in case rule_change of
           CDict params \<Rightarrow>
             apply_rule_changes pf rest (pm(rule_name \<mapsto> apply_param_changes pf params rule_mods))
         | _ \<Rightarrow> (pm(rule_name \<mapsto> rule_mods), Some AttributeError))"

text \<open>The bodies of the two enterprise loops of the government-enterprise policy.\<close>

definition data_open_sharing_effect :: "agent \<Rightarrow> agent \<times> py_error option" where
  "data_open_sharing_effect enterprise =
     (let compliant =
            (case attributes enterprise ''data_collection_strategy'' of
               None \<Rightarrow> True
             | Some (AStr s) \<Rightarrow> s = ''compliant''
             | Some (ANum x) \<Rightarrow> False)
      in if compliant then
           (enterprise\<lparr>attributes :=
              (attributes enterprise)(''data_sharing_willingness'' \<mapsto> ANum (8 / 10))\<rparr>, None)
         else (enterprise, None))"

definition algorithm_regulation_effect :: "agent \<Rightarrow> agent \<times> py_error option" where
  "algorithm_regulation_effect enterprise =
     (case attributes enterprise ''data_usage_compliance'' of
        None \<Rightarrow>
          (enterprise\<lparr>attributes :=
             (attributes enterprise)(''data_usage_compliance'' \<mapsto> ANum (min 100 (90 + 5)))\<rparr>, None)
      | Some (ANum current_compliance) \<Rightarrow>
          (enterprise\<lparr>attributes :=
             (attributes enterprise)(''data_usage_compliance'' \<mapsto>
                ANum (min 100 (current_compliance + 5)))\<rparr>, None)
      | Some (AStr s) \<Rightarrow> (enterprise, Some TypeError))"

definition apply_government_enterprise_policy ::
  "(string \<Rightarrow> real option) \<Rightarrow> string \<Rightarrow> policy_config \<Rightarrow> agent \<Rightarrow> agent list
     \<Rightarrow> (agent \<times> agent list) \<times> py_error option" where
  "apply_government_enterprise_policy pf policy_name policy_config gov ents =
     (case apply_rule_changes pf (p_rule_change policy_config)
             (case policy_modifiers gov of None \<Rightarrow> Map.empty | Some pm \<Rightarrow> pm) of
        (pm, Some e) \<Rightarrow> ((gov\<lparr>policy_modifiers := Some pm\<rparr>, ents), Some e)
      | (pm, None) \<Rightarrow>
          (let gov' = gov\<lparr>policy_modifiers := Some pm\<rparr>
           in if policy_name = ''data_open_sharing'' then
                (case map_until_error data_open_sharing_effect ents of
                   (ents', e) \<Rightarrow> ((gov', ents'), e))
              else if policy_name = ''algorithm_regulation'' then
                (case map_until_error algorithm_regulation_effect ents of
                   (ents', e) \<Rightarrow> ((gov', ents'), e))
              else ((gov', ents), None)))"

definition apply_government_policy ::
  "(string \<Rightarrow> real option) \<Rightarrow> policy_config \<Rightarrow> agent \<Rightarrow> agent \<times> py_error option" where
  "apply_government_policy pf policy_config gov =
     (case apply_attribute_changes pf (p_attribute_change policy_config) (attributes gov) of
        (attrs, e) \<Rightarrow> (gov\<lparr>attributes := attrs\<rparr>, e))"

text \<open>The body of the loop over the enterprises of \<open>_apply_enterprise_policy\<close>.\<close>

definition apply_enterprise_changes ::
  "(string \<Rightarrow> real option) \<Rightarrow> policy_config \<Rightarrow> agent \<Rightarrow> agent \<times> py_error option" where
  "apply_enterprise_changes pf policy_config enterprise =
     (case apply_attribute_changes pf (p_attribute_change policy_config) (attributes enterprise) of
        (attrs, e) \<Rightarrow> (enterprise\<lparr>attributes := attrs\<rparr>, e))"

definition apply_enterprise_policy ::
  "(string \<Rightarrow> real option) \<Rightarrow> policy_config \<Rightarrow> agent list \<Rightarrow> agent list \<times> py_error option" where
  "apply_enterprise_policy pf policy_config ents =
     map_until_error (apply_enterprise_changes pf policy_config) ents"

text \<open>The dispatch on the target of \<open>_apply_single_policy\<close>, before the history entry.\<close>

definition apply_policy_target ::
  "(string \<Rightarrow> real option) \<Rightarrow> string \<Rightarrow> policy_config \<Rightarrow> sim \<Rightarrow> sim \<times> py_error option" where
  "apply_policy_target pf policy_name policy_config s =
     (let target = p_target policy_config
      in if target = ''resident'' then
           (case apply_resident_policy pf policy_name policy_config (residents s) of
              (rs, e) \<Rightarrow> (s\<lparr>residents := rs\<rparr>, e))
         else if target = ''government_enterprise'' then
           (case apply_government_enterprise_policy pf policy_name policy_config
                   (government s) (enterprises s) of
              ((gov, ents), e) \<Rightarrow> (s\<lparr>government := gov, enterprises := ents\<rparr>, e))
         else if target = ''environment'' then
           (case apply_policy_intervention pf (environment s) policy_config of
              (env, e) \<Rightarrow> (s\<lparr>environment := env\<rparr>, e))
         else if target = ''government'' then
           (case apply_government_policy pf policy_config (government s) of
              (gov, e) \<Rightarrow> (s\<lparr>government := gov\<rparr>, e))
         else if target = ''enterprise'' then
           (case apply_enterprise_policy pf policy_config (enterprises s) of
              (ents, e) \<Rightarrow> (s\<lparr>enterprises := ents\<rparr>, e))
         else (s, None))"

definition apply_single_policy ::
  "(string \<Rightarrow> real option) \<Rightarrow> string \<Rightarrow> policy_config \<Rightarrow> policy_engine \<times> sim
     \<Rightarrow> (policy_engine \<times> sim) \<times> py_error option" where
  "apply_single_policy pf policy_name policy_config es =
     (case apply_policy_target pf policy_name policy_config (snd es) of
        (s, Some e) \<Rightarrow> ((fst es, s), Some e)
      | (s, None) \<Rightarrow>
          (((fst es)\<lparr>policy_history := policy_history (fst es)
                       @ [(policy_name, p_target policy_config, policy_config)]\<rparr>, s), None))"

text \<open>
  \<open>PolicyEngine.apply\<close>: the loop over the policy names. An unknown name only logs a
  warning (the log is not part of the model) and the loop goes on.
\<close>

fun apply_policies ::
  "(string \<Rightarrow> real option) \<Rightarrow> policy_engine \<times> sim \<Rightarrow> string list
     \<Rightarrow> (policy_engine \<times> sim) \<times> py_error option" where
  "apply_policies pf es [] = (es, None)"
| "apply_policies pf es (policy_name # names) =
     (case policies (fst es) policy_name of
        Some policy_config \<Rightarrow>
          (case apply_single_policy pf policy_name policy_config es of
             (es', Some e) \<Rightarrow> (es', Some e)
           | ((eng, s), None) \<Rightarrow>
               apply_policies pf
                 (if policy_name \<notin> set (applied_policies eng)
                  then (eng\<lparr>applied_policies := applied_policies eng @ [policy_name]\<rparr>, s)
                  else (eng, s))
                 names)
      | None \<Rightarrow> apply_policies pf es names)"

text \<open>
  A one-resident population, an engine that knows the digital literacy training with a
  change of +20, and a reading of \<open>float\<close> on the strings the examples use.
\<close>

definition ex_pf :: "string \<Rightarrow> real option" where
  "ex_pf s = (if s = ''+20'' then Some 20 else if s = ''20'' then Some 20 else None)"

definition ex_policy :: policy_config where
  "ex_policy = \<lparr> p_target = ''resident'',
                 p_attribute_change = [(''information_literacy'', CStr ''+20'')],
                 p_behavior_change = [], p_rule_change = [] \<rparr>"

definition ex_engine :: policy_engine where
  "ex_engine = \<lparr> policies = [''digital_literacy_training'' \<mapsto> ex_policy],
                 applied_policies = [], policy_history = [] \<rparr>"

definition ex_resident :: agent where
  "ex_resident = \<lparr> agent_id = Some ''resident_0'', area = Some ''core_area'',
                   attributes = [''information_literacy'' \<mapsto> ANum 55,
                                 ''trust_in_government'' \<mapsto> ANum 80],
                   state = [''satisfaction'' \<mapsto> 3],
                   behavior_modifiers = None, policy_modifiers = None \<rparr>"

definition ex_government :: agent where
  "ex_government = \<lparr> agent_id = None, area = None,
                     attributes = [''information_transparency'' \<mapsto> ANum 70],
                     state = [''resource_utilization'' \<mapsto> 7 / 10],
                     behavior_modifiers = None, policy_modifiers = None \<rparr>"

definition ex_enterprise :: agent where
  "ex_enterprise = \<lparr> agent_id = Some ''enterprise_0'', area = None,
                     attributes = [''data_usage_compliance'' \<mapsto> ANum 90],
                     state = [''innovation_level'' \<mapsto> 50, ''market_share'' \<mapsto> 1 / 10],
                     behavior_modifiers = None, policy_modifiers = None \<rparr>"

definition ex_sim :: sim where
  "ex_sim = \<lparr> government = ex_government, enterprises = [ex_enterprise],
              residents = [ex_resident], environment = ex_env_calm \<rparr>"

section \<open>simulation/interaction.py: state folding\<close>

text \<open>
  \<open>agent_interactions[participant]\<close>: the interactions of the round in which the id
  takes part, in order, once per occurrence of the id among the participants.
\<close>

definition interactions_of :: "string \<Rightarrow> interaction list \<Rightarrow> interaction list" where
  "interactions_of pid interactions =
     concat (map (\<lambda>i. map (\<lambda>p. i)
                        (filter (\<lambda>p. p = pid)
                           (case i_participants i of None \<Rightarrow> [] | Some ps \<Rightarrow> ps)))
                 interactions)"

definition get_outcome :: "interaction \<Rightarrow> string" where
  "get_outcome i = (case i_outcome i of None \<Rightarrow> ''neutral'' | Some oc \<Rightarrow> oc)"

definition get_type :: "interaction \<Rightarrow> string" where
  "get_type i = (case i_type i of None \<Rightarrow> '''' | Some t \<Rightarrow> t)"

text \<open>\<open>agent.state.get(key, default)\<close>\<close>

definition state_get :: "agent \<Rightarrow> string \<Rightarrow> real \<Rightarrow> real" where
  "state_get a key dflt = (case state a key of None \<Rightarrow> dflt | Some x \<Rightarrow> x)"

text \<open>The loop bodies of the three \<open>_update_..._state\<close> methods.\<close>

definition government_step :: "agent \<Rightarrow> interaction \<Rightarrow> agent" where
  "government_step gov i =
     (let outcome = get_outcome i
      in if outcome = ''success'' then
           gov\<lparr>state := (state gov)(''resource_utilization'' \<mapsto>
                  min 1 (state_get gov ''resource_utilization'' (7 / 10) + 1 / 100))\<rparr>
         else if outcome \<in> set [''failed'', ''violation''] then
           gov\<lparr>state := (state gov)(''resource_utilization'' \<mapsto>
                  max 0 (state_get gov ''resource_utilization'' (7 / 10) - 1 / 100))\<rparr>
         else gov)"

definition enterprise_step :: "agent \<Rightarrow> interaction \<Rightarrow> agent" where
  "enterprise_step enterprise i =
     (let outcome = get_outcome i;
          interaction_type = get_type i
      in if outcome = ''success'' then
           (if interaction_type = ''procurement_cooperation'' then
              enterprise\<lparr>state := (state enterprise)(''innovation_level'' \<mapsto>
                  min 100 (state_get enterprise ''innovation_level'' 50 + 2))\<rparr>
            else if interaction_type = ''service_supply'' then
              enterprise\<lparr>state := (state enterprise)(''market_share'' \<mapsto>
                  min 1 (state_get enterprise ''market_share'' (1 / 10) + 1 / 100))\<rparr>
            else enterprise)
         else enterprise)"

text \<open>
  \<open>resident.attributes.get('trust_in_government', 80) + delta\<close>, clamped by \<open>clamp\<close>;
  a categorical value raises.
\<close>

definition trust_update :: "agent \<Rightarrow> real \<Rightarrow> (real \<Rightarrow> real) \<Rightarrow> agent \<times> py_error option" where
  "trust_update resident delta clamp =
     (case attributes resident ''trust_in_government'' of
        None \<Rightarrow>
          (resident\<lparr>attributes := (attributes resident)(''trust_in_government'' \<mapsto>
              ANum (clamp (80 + delta)))\<rparr>, None)
      | Some (ANum x) \<Rightarrow>
          (resident\<lparr>attributes := (attributes resident)(''trust_in_government'' \<mapsto>
              ANum (clamp (x + delta)))\<rparr>, None)
      | Some (AStr s) \<Rightarrow> (resident, Some TypeError))"

definition resident_step :: "agent \<Rightarrow> interaction \<Rightarrow> agent \<times> py_error option" where
  "resident_step resident i =
     (let outcome = get_outcome i;
          interaction_type = get_type i
      in if outcome = ''success'' then
           (if interaction_type = ''service_provision'' then
              (resident\<lparr>state := (state resident)(''satisfaction'' \<mapsto>
                  min 5 (state_get resident ''satisfaction'' 3 + 1 / 10))\<rparr>, None)
            else if interaction_type = ''demand_response'' then
              trust_update resident 1 (min 100)
            else (resident, None))
         else if outcome \<in> set [''failed'', ''ignored''] then
           (let resident' = resident\<lparr>state := (state resident)(''satisfaction'' \<mapsto>
                  max 1 (state_get resident ''satisfaction'' 3 - 5 / 100))\<rparr>
            in if interaction_type = ''demand_response'' then
                 trust_update resident' (- 2) (max 0)
               else (resident', None))
         else (resident, None))"

definition update_government_state :: "agent \<Rightarrow> interaction list \<Rightarrow> agent" where
  "update_government_state gov interactions = foldl government_step gov interactions"

definition update_enterprise_state :: "agent \<Rightarrow> interaction list \<Rightarrow> agent" where
  "update_enterprise_state enterprise interactions = foldl enterprise_step enterprise interactions"

fun update_resident_state :: "agent \<Rightarrow> interaction list \<Rightarrow> agent \<times> py_error option" where
  "update_resident_state resident [] = (resident, None)"
| "update_resident_state resident (i # interactions) =
     (case resident_step resident i of
        (resident', Some e) \<Rightarrow> (resident', Some e)
      | (resident', None) \<Rightarrow> update_resident_state resident' interactions)"

definition update_agent_states :: "sim \<Rightarrow> interaction list \<Rightarrow> sim \<times> py_error option" where
  "update_agent_states s interactions =
     (let gov =
            (if interactions_of ''government'' interactions \<noteq> [] then
               update_government_state (government s) (interactions_of ''government'' interactions)
             else government s);
          ents = map
            (\<lambda>enterprise.
               let aid = (case agent_id enterprise of None \<Rightarrow> ''enterprise'' | Some x \<Rightarrow> x)
               in if interactions_of aid interactions \<noteq> [] then
                    update_enterprise_state enterprise (interactions_of aid interactions)
                  else enterprise)
            (enterprises s)
      in case map_until_error
                (\<lambda>resident.
                   let aid = (case agent_id resident of None \<Rightarrow> ''resident'' | Some x \<Rightarrow> x)
                   in if interactions_of aid interactions \<noteq> [] then
                        update_resident_state resident (interactions_of aid interactions)
                      else (resident, None))
                (residents s) of
           (rs, e) \<Rightarrow> (s\<lparr>government := gov, enterprises := ents, residents := rs\<rparr>, e))"

section \<open>Bounds of the agent values\<close>

text \<open>
  The declared bounds, for the values that are present: a missing key is read with an
  in-range default by the code, a categorical attribute has no bound. \<open>names\<close> is any
  list of attribute names whose numeric values are meant to lie in [0,100].
\<close>

definition in_range :: "real \<Rightarrow> real \<Rightarrow> real option \<Rightarrow> bool" where
  "in_range lo hi x = (case x of None \<Rightarrow> True | Some v \<Rightarrow> lo \<le> v \<and> v \<le> hi)"

definition attr_in_range :: "real \<Rightarrow> real \<Rightarrow> attr_val option \<Rightarrow> bool" where
  "attr_in_range lo hi x = (case x of Some (ANum v) \<Rightarrow> lo \<le> v \<and> v \<le> hi | _ \<Rightarrow> True)"

definition attrs_bounded :: "string list \<Rightarrow> agent \<Rightarrow> bool" where
  "attrs_bounded names a = list_all (\<lambda>n. attr_in_range 0 100 (attributes a n)) names"

definition government_bounded :: "string list \<Rightarrow> agent \<Rightarrow> bool" where
  "government_bounded names gov =
     (in_range 0 1 (state gov ''resource_utilization'') \<and> attrs_bounded names gov)"

definition enterprise_bounded :: "string list \<Rightarrow> agent \<Rightarrow> bool" where
  "enterprise_bounded names e =
     (in_range 0 100 (state e ''innovation_level'') \<and> in_range 0 1 (state e ''market_share'')
      \<and> attrs_bounded names e)"

definition resident_bounded :: "string list \<Rightarrow> agent \<Rightarrow> bool" where
  "resident_bounded names r =
     (in_range 1 5 (state r ''satisfaction'')
      \<and> attr_in_range 0 100 (attributes r ''trust_in_government'')
      \<and> attrs_bounded names r)"

definition sim_bounded :: "string list \<Rightarrow> sim \<Rightarrow> bool" where
  "sim_bounded names s =
     (government_bounded names (government s)
      \<and> list_all (enterprise_bounded names) (enterprises s)
      \<and> list_all (resident_bounded names) (residents s))"

text \<open>
  A history of the run: state foldings of a round's interactions and policy applications,
  each with any engine. The state reached is kept also when a step raises.
\<close>

datatype event = Folding "interaction list" | Policies policy_engine "string list"

fun step_event :: "(string \<Rightarrow> real option) \<Rightarrow> sim \<Rightarrow> event \<Rightarrow> sim" where
  "step_event pf s (Folding interactions) = fst (update_agent_states s interactions)"
| "step_event pf s (Policies eng names) = snd (fst (apply_policies pf (eng, s) names))"

definition run_events :: "(string \<Rightarrow> real option) \<Rightarrow> sim \<Rightarrow> event list \<Rightarrow> sim" where
  "run_events pf s evs = foldl (step_event pf) s evs"

text \<open>
  Two interactions of the government with the example enterprise: a failed procurement
  and a regulation violation.
\<close>

definition ex_failed :: "interaction list" where
  "ex_failed = [mk_interaction ''procurement_cooperation'' [''government'', ''enterprise_0''] ''failed'',
                mk_interaction ''regulation'' [''government'', ''enterprise_0''] ''violation'']"

section \<open>simulation/interaction.py: generating the interactions of a round\<close>

text \<open>
  A rule is a dict with the keys \<open>probability\<close> and \<open>effect\<close>; the rule configuration
  maps a pair class to its table of rules. A decision is a dict of which the engine reads
  \<open>action\<close> and \<open>target\<close>.

  \<open>random.sample\<close> and \<open>random.randint\<close> draw from the generator by other means than
  \<open>random.random\<close>; they are parameters of the model, threading the same source. A
  computation that draws and can raise returns its result, or the error, with the source
  as it is left.
\<close>

record rule =
  r_probability :: "real option"
  r_effect :: "string option"

type_synonym rule_table = "string \<rightharpoonup> rule"

record decision =
  d_action :: "string option"
  d_target :: "string option"

record random_ops =
  sample :: "rng \<Rightarrow> agent list \<Rightarrow> nat \<Rightarrow> agent list \<times> rng"
  randint :: "rng \<Rightarrow> nat \<Rightarrow> nat \<Rightarrow> nat \<times> rng"

type_synonym 'a rand_result = "(py_error + 'a) \<times> rng"

text \<open>\<open>rules.get(name, {})\<close>, \<open>rule.get('probability', p)\<close>, \<open>rule.get('effect', '')\<close>\<close>

definition rule_get :: "rule_table \<Rightarrow> string \<Rightarrow> rule" where
  "rule_get rules name =
     (case rules name of None \<Rightarrow> \<lparr> r_probability = None, r_effect = None \<rparr> | Some ru \<Rightarrow> ru)"

definition probability_or :: "rule \<Rightarrow> real \<Rightarrow> real" where
  "probability_or ru p = (case r_probability ru of None \<Rightarrow> p | Some x \<Rightarrow> x)"

definition effect_or :: "rule \<Rightarrow> string" where
  "effect_or ru = (case r_effect ru of None \<Rightarrow> '''' | Some x \<Rightarrow> x)"

text \<open>\<open>getattr(agent, 'agent_id', default)\<close>, \<open>getattr(resident, 'area', 'core_area')\<close>\<close>

definition agent_id_or :: "agent \<Rightarrow> string \<Rightarrow> string" where
  "agent_id_or a dflt = (case agent_id a of None \<Rightarrow> dflt | Some x \<Rightarrow> x)"

definition area_or :: "agent \<Rightarrow> string" where
  "area_or a = (case area a of None \<Rightarrow> ''core_area'' | Some x \<Rightarrow> x)"

text \<open>A numeric read \<open>agent.attributes.get(key, default)\<close> used in arithmetic.\<close>

definition attr_num :: "agent \<Rightarrow> string \<Rightarrow> real \<Rightarrow> py_error + real" where
  "attr_num a key dflt =
     (case attributes a key of
        None \<Rightarrow> Inr dflt
      | Some (ANum x) \<Rightarrow> Inr x
      | Some (AStr s) \<Rightarrow> Inl TypeError)"

definition create_procurement_interaction ::
  "agent \<Rightarrow> agent \<Rightarrow> rule_table \<Rightarrow> rng \<Rightarrow> interaction option rand_result" where
  "create_procurement_interaction gov enterprise rules r =
     (let ru = rule_get rules ''procurement_cooperation'';
          probability = probability_or ru (7 / 10);
          enterprise_capability = state_get enterprise ''innovation_level'' 50 / 100;
          success_prob = probability * enterprise_capability
      in case random_random r of (u, r1) \<Rightarrow>
           (Inr (Some ((mk_interaction ''procurement_cooperation''
                          [''government'', agent_id_or enterprise ''enterprise'']
                          (if u < success_prob then ''success'' else ''failed''))
                       \<lparr>i_effect := Some (effect_or ru), i_service_type := Some ''digital''\<rparr>)), r1))"

definition create_regulation_interaction ::
  "agent \<Rightarrow> agent \<Rightarrow> rule_table \<Rightarrow> rng \<Rightarrow> interaction option rand_result" where
  "create_regulation_interaction gov enterprise rules r =
     (let ru = rule_get rules ''regulation''
      in case attr_num enterprise ''data_usage_compliance'' 90 of
           Inl e \<Rightarrow> (Inl e, r)
         | Inr c \<Rightarrow>
             (case random_random r of (u, r1) \<Rightarrow>
                let compliant = (u < c / 100)
                in (Inr (Some ((mk_interaction ''regulation''
                                  [''government'', agent_id_or enterprise ''enterprise'']
                                  (if compliant then ''success'' else ''violation''))
                               \<lparr>i_effect := Some (effect_or ru),
                                 i_compliance := Some compliant\<rparr>)), r1)))"

definition create_data_sharing_interaction ::
  "agent \<Rightarrow> agent \<Rightarrow> rule_table \<Rightarrow> rng \<Rightarrow> interaction option rand_result" where
  "create_data_sharing_interaction gov enterprise rules r =
     (let ru = rule_get rules ''data_sharing'';
          probability = probability_or ru (3 / 10)
      in case attr_num gov ''information_transparency'' 70 of
           Inl e \<Rightarrow> (Inl e, r)
         | Inr t \<Rightarrow>
             (case random_random r of (u, r1) \<Rightarrow>
                (Inr (Some ((mk_interaction ''data_sharing''
                               [''government'', agent_id_or enterprise ''enterprise'']
                               (if u < probability * (t / 100) then ''success'' else ''denied''))
                            \<lparr>i_effect := Some (effect_or ru)\<rparr>)), r1)))"

definition create_service_interaction ::
  "agent \<Rightarrow> agent \<Rightarrow> decision \<Rightarrow> rule \<Rightarrow> rng \<Rightarrow> interaction option rand_result" where
  "create_service_interaction gov resident gov_decision ru r =
     (let probability = probability_or ru (8 / 10);
          resident_area = area_or resident;
          infrastructure_quality =
            (if resident_area = ''core_area'' then 9 / 10
             else if resident_area = ''urban_rural_fringe'' then 7 / 10
             else if resident_area = ''rural'' then 5 / 10
             else 7 / 10);
          success_prob = probability * infrastructure_quality
      in case random_random r of (u1, r1) \<Rightarrow>
           case random_random r1 of (u2, r2) \<Rightarrow>
             (Inr (Some ((mk_interaction ''service_provision''
                            [''government'', agent_id_or resident ''resident'']
                            (if u1 < success_prob then ''success'' else ''failed''))
                         \<lparr>i_effect := Some (effect_or ru), i_area := Some resident_area,
                           i_service_type :=
                             Some (if u2 > 3 / 10 then ''digital'' else ''physical'')\<rparr>)), r2))"

definition create_resident_gov_interaction ::
  "agent \<Rightarrow> agent \<Rightarrow> decision \<Rightarrow> rule_table \<Rightarrow> rng \<Rightarrow> interaction option rand_result" where
  "create_resident_gov_interaction resident gov res_decision rules r =
     (let action = (case d_action res_decision of None \<Rightarrow> ''provide_feedback'' | Some a \<Rightarrow> a)
      in if action = ''provide_feedback'' then
           (let ru = rule_get rules ''demand_response'';
                probability = probability_or ru (7 / 10)
            in case attr_num gov ''information_transparency'' 70 of
                 Inl e \<Rightarrow> (Inl e, r)
               | Inr t \<Rightarrow>
                   (case random_random r of (u, r1) \<Rightarrow>
                      (Inr (Some ((mk_interaction ''demand_response''
                                     [agent_id_or resident ''resident'', ''government'']
                                     (if u < probability * (t / 100) then ''success''
                                      else ''ignored''))
                                  \<lparr>i_effect := Some (effect_or ru),
                                    i_area := Some (area_or resident)\<rparr>)), r1)))
         else (Inr None, r))"

definition create_enterprise_service_interaction ::
  "agent \<Rightarrow> agent \<Rightarrow> decision \<Rightarrow> rule_table \<Rightarrow> rng \<Rightarrow> interaction option rand_result" where
  "create_enterprise_service_interaction enterprise resident ent_decision rules r =
     (let ru = rule_get rules ''service_supply'';
          probability = probability_or ru (8 / 10)
      in case attr_num resident ''technology_acceptance'' 70 of
           Inl e \<Rightarrow> (Inl e, r)
         | Inr acc \<Rightarrow>
             (let resident_acceptance = acc / 100;
                  enterprise_capability = state_get enterprise ''innovation_level'' 50 / 100;
                  success_prob = probability * resident_acceptance * enterprise_capability
              in case random_random r of (u, r1) \<Rightarrow>
                   (Inr (Some ((mk_interaction ''service_supply''
                                  [agent_id_or enterprise ''enterprise'',
                                   agent_id_or resident ''resident'']
                                  (if u < success_prob then ''success'' else ''rejected''))
                               \<lparr>i_effect := Some (effect_or ru),
                                 i_area := Some (area_or resident)\<rparr>)), r1)))"

definition create_bidding_interaction ::
  "agent \<Rightarrow> agent \<Rightarrow> rule_table \<Rightarrow> rng \<Rightarrow> interaction option rand_result" where
  "create_bidding_interaction enterprise gov rules r =
     (let capability = state_get enterprise ''innovation_level'' 50
      in case attr_num enterprise ''data_usage_compliance'' 90 of
           Inl e \<Rightarrow> (Inl e, r)
         | Inr compliance \<Rightarrow>
             (let success_score = (capability + compliance) / 200
              in case random_random r of (u, r1) \<Rightarrow>
                   (Inr (Some ((mk_interaction ''project_bidding''
                                  [agent_id_or enterprise ''enterprise'', ''government'']
                                  (if u < success_score then ''success'' else ''failed''))
                               \<lparr>i_effect := Some (if u < success_score then ''contract_award''
                                                   else ''bid_rejected'')\<rparr>)), r1)))"

definition create_data_request_interaction ::
  "agent \<Rightarrow> agent \<Rightarrow> rule_table \<Rightarrow> rng \<Rightarrow> interaction option rand_result" where
  "create_data_request_interaction enterprise gov rules r =
     (let ru = rule_get rules ''data_sharing'';
          probability = probability_or ru (3 / 10)
      in case attr_num enterprise ''data_usage_compliance'' 90 of
           Inl e \<Rightarrow> (Inl e, r)
         | Inr c \<Rightarrow>
             (case random_random r of (u, r1) \<Rightarrow>
                (Inr (Some ((mk_interaction ''data_request''
                               [agent_id_or enterprise ''enterprise'', ''government'']
                               (if u < probability * (c / 100) then ''approved'' else ''denied''))
                            \<lparr>i_effect := Some (if u < probability * (c / 100) then ''data_access''
                                                else ''access_denied'')\<rparr>)), r1)))"

definition create_gov_ent_interaction ::
  "agent \<Rightarrow> agent \<Rightarrow> decision \<Rightarrow> rule_table \<Rightarrow> rng \<Rightarrow> interaction option rand_result" where
  "create_gov_ent_interaction gov enterprise gov_decision rules r =
     (let action = (case d_action gov_decision of None \<Rightarrow> ''regulation'' | Some a \<Rightarrow> a)
      in if action = ''procurement_cooperation'' then
           create_procurement_interaction gov enterprise rules r
         else if action = ''regulation'' then create_regulation_interaction gov enterprise rules r
         else if action = ''data_sharing'' then
           create_data_sharing_interaction gov enterprise rules r
         else (Inr None, r))"

definition create_ent_gov_interaction ::
  "agent \<Rightarrow> agent \<Rightarrow> decision \<Rightarrow> rule_table \<Rightarrow> rng \<Rightarrow> interaction option rand_result" where
  "create_ent_gov_interaction enterprise gov ent_decision rules r =
     (let action = (case d_action ent_decision of None \<Rightarrow> ''compliance_reporting'' | Some a \<Rightarrow> a)
      in if action = ''project_bidding'' then create_bidding_interaction enterprise gov rules r
         else if action = ''data_request'' then
           create_data_request_interaction enterprise gov rules r
         else (Inr None, r))"

text \<open>
  A loop that calls a creator for each element and appends the interaction it returns,
  if any; a raise ends the loop. \<open>then_extend\<close> is \<open>interactions.extend\<close> of a second
  computation after a first.
\<close>

fun collect ::
  "('a \<Rightarrow> rng \<Rightarrow> interaction option rand_result) \<Rightarrow> 'a list \<Rightarrow> rng
     \<Rightarrow> interaction list rand_result" where
  "collect f [] r = (Inr [], r)"
| "collect f (x # xs) r =
     (case f x r of
        (Inl e, r1) \<Rightarrow> (Inl e, r1)
      | (Inr io, r1) \<Rightarrow>
          (case collect f xs r1 of
             (Inl e, r2) \<Rightarrow> (Inl e, r2)
           | (Inr ys, r2) \<Rightarrow> (Inr ((case io of None \<Rightarrow> [] | Some i \<Rightarrow> [i]) @ ys), r2)))"

definition then_extend ::
  "interaction list rand_result \<Rightarrow> (rng \<Rightarrow> interaction list rand_result)
     \<Rightarrow> interaction list rand_result" where
  "then_extend a f =
     (case a of
        (Inl e, r) \<Rightarrow> (Inl e, r)
      | (Inr xs, r) \<Rightarrow>
          (case f r of (Inl e, r') \<Rightarrow> (Inl e, r') | (Inr ys, r') \<Rightarrow> (Inr (xs @ ys), r')))"

definition process_government_enterprise_interactions ::
  "(string \<rightharpoonup> rule_table) \<Rightarrow> agent \<Rightarrow> agent list \<Rightarrow> decision \<Rightarrow> decision list \<Rightarrow> rng
     \<Rightarrow> interaction list rand_result" where
  "process_government_enterprise_interactions rules_config gov ents gov_decision ent_decisions r =
     (let rules = (case rules_config ''government_enterprise'' of
                     None \<Rightarrow> Map.empty | Some t \<Rightarrow> t)
      in then_extend
           (if d_target gov_decision \<in> set [Some ''enterprises'', Some ''enterprise''] then
              collect (\<lambda>enterprise. create_gov_ent_interaction gov enterprise gov_decision rules)
                ents r
            else (Inr [], r))
           (collect
              (\<lambda>(enterprise, ent_decision) r'.
                 if d_target ent_decision \<in> set [Some ''government'', Some ''gov''] then
                   create_ent_gov_interaction enterprise gov ent_decision rules r'
                 else (Inr None, r'))
              (zip ents ent_decisions)))"

text \<open>
  In the service provision loop the argument \<open>rules['service_provision']\<close> is evaluated at
  each iteration, before the call: a table without that key raises \<open>KeyError\<close> at the
  first selected resident.
\<close>

definition process_government_resident_interactions ::
  "random_ops \<Rightarrow> (string \<rightharpoonup> rule_table) \<Rightarrow> agent \<Rightarrow> agent list \<Rightarrow> decision \<Rightarrow> decision list
     \<Rightarrow> rng \<Rightarrow> interaction list rand_result" where
  "process_government_resident_interactions ro rules_config gov rs gov_decision res_decisions r =
     (let rules = (case rules_config ''government_resident'' of
                     None \<Rightarrow> Map.empty | Some t \<Rightarrow> t)
      in then_extend
           (if d_action gov_decision = Some ''service_provision'' then
              (let num_interactions = min 20 (length rs)
               in case sample ro r rs num_interactions of (selected_residents, r1) \<Rightarrow>
                    collect
                      (\<lambda>resident r'.
                         case rules ''service_provision'' of
                           None \<Rightarrow> (Inl KeyError, r')
                         | Some ru \<Rightarrow> create_service_interaction gov resident gov_decision ru r')
                      selected_residents r1)
            else (Inr [], r))
           (collect
              (\<lambda>(resident, res_decision) r'.
                 if d_target res_decision = Some ''government''
                    \<and> d_action res_decision \<in> set [Some ''provide_feedback'', Some ''request_service'']
                 then create_resident_gov_interaction resident gov res_decision rules r'
                 else (Inr None, r'))
              (zip rs res_decisions)))"

text \<open>The body of the loop over the enterprises and their decisions.\<close>

definition enterprise_service_interactions ::
  "random_ops \<Rightarrow> rule_table \<Rightarrow> agent list \<Rightarrow> agent \<times> decision \<Rightarrow> rng
     \<Rightarrow> interaction list rand_result" where
  "enterprise_service_interactions ro rules rs ed r =
     (if d_action (snd ed) \<in> set [Some ''service_development'', Some ''service_promotion''] then
        (case randint ro r 5 15 of (num_interactions, r1) \<Rightarrow>
           case sample ro r1 rs (min num_interactions (length rs)) of (selected_residents, r2) \<Rightarrow>
             collect
               (\<lambda>resident. create_enterprise_service_interaction (fst ed) resident (snd ed) rules)
               selected_residents r2)
      else (Inr [], r))"

fun collect_lists ::
  "('a \<Rightarrow> rng \<Rightarrow> interaction list rand_result) \<Rightarrow> 'a list \<Rightarrow> rng
     \<Rightarrow> interaction list rand_result" where
  "collect_lists f [] r = (Inr [], r)"
| "collect_lists f (x # xs) r = then_extend (f x r) (collect_lists f xs)"

definition process_enterprise_resident_interactions ::
  "random_ops \<Rightarrow> (string \<rightharpoonup> rule_table) \<Rightarrow> agent list \<Rightarrow> agent list \<Rightarrow> decision list
     \<Rightarrow> decision list \<Rightarrow> rng \<Rightarrow> interaction list rand_result" where
  "process_enterprise_resident_interactions ro rules_config ents rs ent_decisions res_decisions r =
     (let rules = (case rules_config ''enterprise_resident'' of
                     None \<Rightarrow> Map.empty | Some t \<Rightarrow> t)
      in collect_lists (enterprise_service_interactions ro rules rs) (zip ents ent_decisions) r)"

text \<open>
  The loop \<open>for _ in range(num_interactions)\<close> of the resident-resident interactions;
  unpacking a sample that is not a pair raises \<open>ValueError\<close>.
\<close>

fun information_sharing_loop ::
  "random_ops \<Rightarrow> agent list \<Rightarrow> nat \<Rightarrow> rng \<Rightarrow> interaction list rand_result" where
  "information_sharing_loop ro rs 0 r = (Inr [], r)"
| "information_sharing_loop ro rs (Suc n) r =
     (if length rs \<ge> 2 then
        (case sample ro r rs 2 of
           ([resident1, resident2], r1) \<Rightarrow>
             (let probability = (if area_or resident1 = area_or resident2 then 3 / 10 else 1 / 10 :: real)
              in case random_random r1 of (u, r2) \<Rightarrow>
                   then_extend
                     (Inr (if u < probability then
                             [(mk_interaction ''information_sharing''
                                 [agent_id_or resident1 ''resident_1'',
                                  agent_id_or resident2 ''resident_2''] ''success'')
                              \<lparr>i_effect := Some ''knowledge_transfer''\<rparr>]
                           else []), r2)
                     (information_sharing_loop ro rs n))
         | (other, r1) \<Rightarrow> (Inl ValueError, r1))
      else information_sharing_loop ro rs n r)"

definition process_resident_resident_interactions ::
  "random_ops \<Rightarrow> agent list \<Rightarrow> decision list \<Rightarrow> rng \<Rightarrow> interaction list rand_result" where
  "process_resident_resident_interactions ro rs res_decisions r =
     information_sharing_loop ro rs (min 10 (length rs div 10)) r"

text \<open>
  \<open>InteractionEngine.process\<close>: the state after the call (the engine's history, the
  agents, the random source) and what the call returns or raises.
\<close>

record process_outcome =
  po_result :: "py_error + interaction list"
  po_history :: "interaction list"
  po_sim :: sim
  po_rng :: rng

definition process ::
  "random_ops \<Rightarrow> (string \<rightharpoonup> rule_table) \<Rightarrow> interaction list \<Rightarrow> sim \<Rightarrow> decision
     \<Rightarrow> decision list \<Rightarrow> decision list \<Rightarrow> rng \<Rightarrow> process_outcome" where
  "process ro rules_config history s gov_decision ent_decisions res_decisions r =
     (case then_extend
             (process_government_enterprise_interactions rules_config (government s)
                (enterprises s) gov_decision ent_decisions r)
             (\<lambda>r1. then_extend
                (process_government_resident_interactions ro rules_config (government s)
                   (residents s) gov_decision res_decisions r1)
                (\<lambda>r2. then_extend
                   (process_enterprise_resident_interactions ro rules_config (enterprises s)
                      (residents s) ent_decisions res_decisions r2)
                   (process_resident_resident_interactions ro (residents s) res_decisions))) of
        (Inl e, r') \<Rightarrow>
          \<lparr> po_result = Inl e, po_history = history, po_sim = s, po_rng = r' \<rparr>
      | (Inr interactions, r') \<Rightarrow>
          (case update_agent_states s interactions of
             (s', Some e) \<Rightarrow>
               \<lparr> po_result = Inl e, po_history = history @ interactions, po_sim = s',
                 po_rng = r' \<rparr>
           | (s', None) \<Rightarrow>
               \<lparr> po_result = Inr interactions, po_history = history @ interactions,
                 po_sim = s', po_rng = r' \<rparr>))"

section \<open>main.py: the round body of run_simulation, from the call of process\<close>

text \<open>
  The decisions come from the decision provider and are inputs. When \<open>process\<close> raises,
  the handler of the round logs the error and continues with the next round: the
  environment is not updated and no round record is appended.
\<close>

record driver =
  dr_sim :: sim
  dr_history :: "interaction list"
  dr_records :: "round_record list"
  dr_rng :: rng

definition run_round ::
  "random_ops \<Rightarrow> (string \<rightharpoonup> rule_table) \<Rightarrow> nat \<Rightarrow> decision \<Rightarrow> decision list \<Rightarrow> decision list
     \<Rightarrow> driver \<Rightarrow> driver" where
  "run_round ro rules_config round_num gov_decision ent_decisions res_decisions dr =
     (let po = process ro rules_config (dr_history dr) (dr_sim dr) gov_decision ent_decisions
                 res_decisions (dr_rng dr)
      in case po_result po of
           Inl e \<Rightarrow> dr\<lparr>dr_sim := po_sim po, dr_history := po_history po, dr_rng := po_rng po\<rparr>
         | Inr interactions \<Rightarrow>
             (case update (environment (po_sim po)) interactions (po_rng po) of (env, r') \<Rightarrow>
                dr\<lparr>dr_sim := (po_sim po)\<lparr>environment := env\<rparr>,
                   dr_history := po_history po,
                   dr_records := dr_records dr
                     @ [\<lparr> rr_round = round_num, rr_interactions = Some interactions \<rparr>],
                   dr_rng := r'\<rparr>))"

text \<open>
  A rule configuration whose \<open>government_resident\<close> table has no \<open>service_provision\<close>
  entry, a government decision of service provision, a sampling that takes the first
  elements, and the driver state at the start of a run.
\<close>

definition ex_rules :: "string \<rightharpoonup> rule_table" where
  "ex_rules = [''government_resident'' \<mapsto>
                 [''demand_response'' \<mapsto> \<lparr> r_probability = Some (7 / 10),
                                          r_effect = Some ''trust_change'' \<rparr>]]"

definition ex_gov_decision :: decision where
  "ex_gov_decision = \<lparr> d_action = Some ''service_provision'', d_target = Some ''residents'' \<rparr>"

definition ex_random_ops :: random_ops where
  "ex_random_ops = \<lparr> sample = (\<lambda>r xs k. (take k xs, r)), randint = (\<lambda>r a b. (a, r)) \<rparr>"

definition ex_driver :: driver where
  "ex_driver = \<lparr> dr_sim = ex_sim, dr_history = [], dr_records = [], dr_rng = ex_rng_high \<rparr>"

definition ex_ent_decision :: decision where
  "ex_ent_decision = \<lparr> d_action = Some ''compliance_reporting'', d_target = Some ''government'' \<rparr>"

definition ex_res_decision :: decision where
  "ex_res_decision = \<lparr> d_action = Some ''use_service'', d_target = Some ''enterprise'' \<rparr>"

section \<open>Gini coefficient of equal values\<close>

lemma hd_sort_in_set: "xs \<noteq> [] \<Longrightarrow> hd (sort xs) \<in> set xs"
proof -
  assume "xs \<noteq> []"
  then have "sort xs \<noteq> []" by (metis length_sort length_0_conv)
  then have "hd (sort xs) \<in> set (sort xs)" by (rule hd_in_set)
  then show ?thesis by simp
qed

lemma all_equal_after_sort:
  fixes vals :: "real list"
  assumes ne: "vals \<noteq> []" and eq: "list_all (\<lambda>v. v = c) vals"
  shows "list_all (\<lambda>v. v = hd (sort (map (max 0) vals))) (sort (map (max 0) vals))"
proof -
  let ?ws = "map (max 0) vals"
  from eq have all: "\<forall>w \<in> set ?ws. w = max 0 c" by (auto simp: list_all_iff)
  from ne have "?ws \<noteq> []" by simp
  then have "hd (sort ?ws) \<in> set ?ws" by (rule hd_sort_in_set)
  with all have "hd (sort ?ws) = max 0 c" by blast
  with all show ?thesis by (simp add: list_all_iff)
qed

text \<open>
  C9. For every non-empty list of values whose elements are all equal (single-element
  lists included), \<open>calculate_gini\<close> returns exactly 0.
\<close>

theorem calculate_gini_equal_values:
  assumes "vals \<noteq> []" and "list_all (\<lambda>v. v = hd vals) vals"
  shows "calculate_gini vals = 0"
  using all_equal_after_sort [OF assms] by (simp add: calculate_gini_def Let_def)

theorem calculate_gini_equal_values_witness:
  "[3, 3, 3] \<noteq> ([] :: real list) \<and> list_all (\<lambda>v. v = hd [3, 3, 3 :: real]) [3, 3, 3]
   \<and> calculate_gini [3, 3, 3] = 0"
  using calculate_gini_equal_values [of "[3, 3, 3]"] by simp

section \<open>Efficiency defaults\<close>

text \<open>
  C6, as claimed: with no \<open>service_request\<close> record, the empty list included, the result
  has \<open>avg_response_time = 1.0\<close> and \<open>resolution_rate = 0.5\<close>. The empty list is caught by the
  first guard of the function, which returns zeros.
\<close>

theorem calculate_efficiency_empty_counterexample:
  "\<not> (avg_response_time (calculate_efficiency []) = 1
      \<and> resolution_rate (calculate_efficiency []) = 1 / 2)"
  by (simp add: calculate_efficiency_def)

text \<open>
  C6, amended: for every list of interaction records with no record of type
  \<open>service_request\<close>, \<open>calculate_efficiency\<close> returns \<open>avg_response_time = 1.0\<close> and
  \<open>resolution_rate = 0.5\<close> when the list is non-empty, and 0.0 for both when it is empty.
\<close>

theorem calculate_efficiency_no_service_request:
  assumes "list_all (\<lambda>r. i_type r \<noteq> Some ''service_request'') rs"
  shows "avg_response_time (calculate_efficiency rs) = (if rs = [] then 0 else 1)
       \<and> resolution_rate (calculate_efficiency rs) = (if rs = [] then 0 else 1 / 2)"
proof -
  from assms have "filter (\<lambda>r. i_type r = Some ''service_request'') rs = []"
    by (simp add: list_all_iff filter_empty_conv)
  then show ?thesis by (simp add: calculate_efficiency_def mean_def)
qed

theorem calculate_efficiency_no_service_request_witness:
  "list_all (\<lambda>r. i_type r \<noteq> Some ''service_request'')
     [mk_interaction ''regulation'' [''government'', ''enterprise_0''] ''success'']
   \<and> avg_response_time (calculate_efficiency
        [mk_interaction ''regulation'' [''government'', ''enterprise_0''] ''success'']) = 1
   \<and> resolution_rate (calculate_efficiency
        [mk_interaction ''regulation'' [''government'', ''enterprise_0''] ''success'']) = 1 / 2"
  using calculate_efficiency_no_service_request
    [of "[mk_interaction ''regulation'' [''government'', ''enterprise_0''] ''success'']"]
  by (simp add: mk_interaction_def)

section \<open>Cooperation index\<close>

lemma sum_list_concat_map:
  "sum_list (map f (concat xss)) = sum_list (map (\<lambda>xs. sum_list (map f xs)) xss)"
  by (induction xss) simp_all

lemma length_concat_uniform:
  "list_all (\<lambda>xs. length xs = k) xss \<Longrightarrow> length (concat xss) = k * length xss"
  by (induction xss) simp_all

lemma sum_round_cooperation_uniform:
  assumes "0 < k" and "list_all (\<lambda>r. length (get_interactions r) = k) recs"
  shows "sum_list (map round_cooperation recs) =
         sum_list (map (\<lambda>r. sum_list (map interaction_score (get_interactions r))) recs) / real k"
  using assms(2)
proof (induction recs)
  case Nil
  then show ?case by simp
next
  case (Cons r recs)
  from Cons.prems have len: "length (get_interactions r) = k" by simp
  with assms(1) have ne: "get_interactions r \<noteq> []" by auto
  from Cons show ?case
    by (simp add: round_cooperation_def mean_def len ne add_divide_distrib)
qed

lemma score_success: "interaction_score (mk_interaction ''regulation'' ps ''success'') = 1"
  by (simp add: interaction_score_def mk_interaction_def)

lemma score_failed:
  "interaction_score (mk_interaction ''service_provision'' ps ''failed'') = 1 / 10"
  by (simp add: interaction_score_def mk_interaction_def)

text \<open>
  C7, as claimed: the index equals the mean of the score over all individual interactions
  of the history. One round with a single success and one round with three failures give
  0.55 in the code (the mean of the two round means 1.0 and 0.1), while the mean over the
  four interactions is 0.325.
\<close>

theorem cooperation_index_counterexample:
  "calculate_cooperation_index [ex_round_a, ex_round_b] = 11 / 20
   \<and> spec_cooperation_index [ex_round_a, ex_round_b] = 13 / 40
   \<and> calculate_cooperation_index [ex_round_a, ex_round_b]
       \<noteq> spec_cooperation_index [ex_round_a, ex_round_b]"
  by (simp add: calculate_cooperation_index_def spec_cooperation_index_def round_cooperation_def
      get_interactions_def ex_round_a_def ex_round_b_def mean_def score_success score_failed)

lemma interaction_score_table: "interaction_score i = spec_interaction_score i"
  by (simp add: interaction_score_def spec_interaction_score_def spec_outcome_scores_def
      cooperative_types_def Let_def)

lemma interaction_score_eq: "interaction_score = spec_interaction_score"
  by (rule ext) (rule interaction_score_table)

lemma round_cooperation_table:
  "round_cooperation r =
     (if get_interactions r = [] then 1 / 2
      else sum_list (map spec_interaction_score (get_interactions r))
             / real (length (get_interactions r)))"
  by (simp add: round_cooperation_def Let_def mean_def interaction_score_eq)

lemma round_cooperation_eq:
  "round_cooperation =
     (\<lambda>r. if get_interactions r = [] then 1 / 2
          else sum_list (map spec_interaction_score (get_interactions r))
                 / real (length (get_interactions r)))"
  by (rule ext) (rule round_cooperation_table)

text \<open>
  C7, amended: for every simulation record list, the cooperation index returned by
  \<open>calculate_cooperation_index\<close> equals the mean, taken over the rounds of the history,
  of each round's mean per-interaction cooperation score (success, mutual_benefit, win_win
  = 1.0; partial_success, compromise = 0.7; neutral = 0.5; conflict, failed = 0.1; any
  other outcome 0.5; plus a bonus of 0.2, capped at 1.0, for cooperative interaction
  types), where a round without interactions counts 0.5 and an empty record list gives
  0.0: a mean weighted by rounds, not by interactions.
\<close>

theorem cooperation_index_mean_of_round_means:
  "calculate_cooperation_index recs =
     (if recs = [] then 0
      else sum_list (map (\<lambda>r. if get_interactions r = [] then 1 / 2
                               else sum_list (map spec_interaction_score (get_interactions r))
                                      / real (length (get_interactions r))) recs)
             / real (length recs))"
  by (simp only: calculate_cooperation_index_def mean_def round_cooperation_eq length_map)

lemma spec_score_success:
  "spec_interaction_score (mk_interaction ''regulation'' ps ''success'') = 1"
  by (simp add: spec_interaction_score_def spec_outcome_scores_def cooperative_types_def
      mk_interaction_def)

lemma spec_score_failed:
  "spec_interaction_score (mk_interaction ''service_provision'' ps ''failed'') = 1 / 10"
  by (simp add: spec_interaction_score_def spec_outcome_scores_def cooperative_types_def
      mk_interaction_def)

theorem cooperation_index_mean_of_round_means_witness:
  "calculate_cooperation_index [ex_round_a, ex_round_b, ex_round_empty] = 8 / 15
   \<and> calculate_cooperation_index [] = 0"
  using cooperation_index_mean_of_round_means [of "[ex_round_a, ex_round_b, ex_round_empty]"]
    cooperation_index_mean_of_round_means [of "[]"]
  by (simp add: get_interactions_def ex_round_a_def ex_round_b_def ex_round_empty_def
      spec_score_success spec_score_failed)

text \<open>
  The two means coincide when the history is non-empty and every round holds the same
  non-zero number of interactions.
\<close>

lemma cooperation_index_uniform_rounds:
  assumes "recs \<noteq> []" and "0 < k"
    and "list_all (\<lambda>r. length (get_interactions r) = k) recs"
  shows "calculate_cooperation_index recs = spec_cooperation_index recs"
proof -
  have sz: "list_all (\<lambda>xs. length xs = k) (map get_interactions recs)"
    using assms(3) by (simp add: list_all_iff)
  have len: "length (concat (map get_interactions recs)) = k * length recs"
    using length_concat_uniform [OF sz] by simp
  have "spec_cooperation_index recs =
        sum_list (map (\<lambda>r. sum_list (map interaction_score (get_interactions r))) recs)
          / (real k * real (length recs))"
    by (simp add: spec_cooperation_index_def mean_def sum_list_concat_map len comp_def)
  moreover have "calculate_cooperation_index recs =
        sum_list (map (\<lambda>r. sum_list (map interaction_score (get_interactions r))) recs)
          / real k / real (length recs)"
    using assms(1) sum_round_cooperation_uniform [OF assms(2,3)]
    by (simp add: calculate_cooperation_index_def mean_def)
  ultimately show ?thesis by simp
qed

section \<open>Environment update\<close>

lemma drift_entries_enumerate:
  "drift_entries es (g, k) =
     (map (\<lambda>(j, (area, v)). (area, max 0 (min 100 (v + (2 * g j - 1))))) (enumerate k es),
      (g, k + length es))"
proof (induction es arbitrary: k)
  case Nil
  then show ?case by simp
next
  case (Cons e es)
  obtain area v where e: "e = (area, v)" by (cases e)
  show ?case
    by (simp add: e Cons.IH random_uniform_def random_random_def)
qed

lemma update_unfold:
  "update env interactions r =
     (case check_emergency_events
             (update_service_availability
                (update_system_load (env\<lparr>update_count := update_count env + 1\<rparr>) interactions)
                interactions) r of
        (env4, r1) \<Rightarrow>
          apply_random_changes
            (update_service_quality (update_infrastructure_utilization env4 interactions)
               interactions) r1)"
  by (simp add: update_def Let_def)

lemma usq_fields [simp]:
  "emergency_status (update_service_quality e is) = emergency_status e"
  "service_availability (update_service_quality e is) = service_availability e"
  "digital_infrastructure (update_service_quality e is) = digital_infrastructure e"
  "physical_infrastructure (update_service_quality e is) = physical_infrastructure e"
  by (simp_all add: update_service_quality_def)

lemma uiu_fields [simp]:
  "emergency_status (update_infrastructure_utilization e is) = emergency_status e"
  "service_availability (update_infrastructure_utilization e is) = service_availability e"
  "digital_infrastructure (update_infrastructure_utilization e is) = digital_infrastructure e"
  "physical_infrastructure (update_infrastructure_utilization e is) = physical_infrastructure e"
  by (simp_all add: update_infrastructure_utilization_def Let_def)

lemma usa_fields [simp]:
  "emergency_status (update_service_availability e is) = emergency_status e"
  "digital_infrastructure (update_service_availability e is) = digital_infrastructure e"
  "physical_infrastructure (update_service_availability e is) = physical_infrastructure e"
  by (simp_all add: update_service_availability_def Let_def)

lemma usl_fields [simp]:
  "emergency_status (update_system_load e is) = emergency_status e"
  "digital_infrastructure (update_system_load e is) = digital_infrastructure e"
  "physical_infrastructure (update_system_load e is) = physical_infrastructure e"
  by (simp_all add: update_system_load_def Let_def)

lemma arc_fields:
  "emergency_status (fst (apply_random_changes e r)) = emergency_status e"
  "service_availability (fst (apply_random_changes e r)) = service_availability e"
  "physical_infrastructure (fst (apply_random_changes e r)) = physical_infrastructure e"
  by (simp_all add: apply_random_changes_def split: prod.splits)

lemma arc_digital:
  "digital_infrastructure (fst (apply_random_changes e (g, k))) =
     map (\<lambda>(j, (area, v)).
            (area, (if emergency_status e then max 0 (min 100 (v + (2 * g j - 1))) * (98 / 100)
                    else max 0 (min 100 (v + (2 * g j - 1))))))
         (enumerate k (digital_infrastructure e))"
  by (simp add: apply_random_changes_def drift_entries_enumerate split_def comp_def)

lemma cee_cases:
  "check_emergency_events e (g, k) =
     (if g k < 2 / 100 then
        (e\<lparr>emergency_status := True, service_availability := service_availability e * (7 / 10)\<rparr>,
         (g, Suc k))
      else if emergency_status e then
        (if g (Suc k) < 3 / 10 then e\<lparr>emergency_status := False\<rparr> else e, (g, Suc (Suc k)))
      else (e, (g, Suc k)))"
  by (simp add: check_emergency_events_def random_random_def)

text \<open>
  C1, amended: one call to \<open>Environment.update\<close> makes one draw \<open>u1\<close>. If \<open>u1 < 0.02\<close>
  (probability 0.02, whatever the current status) an emergency event fires:
  \<open>emergency_status\<close> is set to True and \<open>service_availability\<close> is multiplied by 0.7, also
  during an ongoing emergency. Otherwise, if the environment is in emergency, a second draw
  \<open>u2\<close> is made and the emergency ends when \<open>u2 < 0.3\<close> (probability 0.3, given that no
  new event fired); otherwise the status stays False. The availability is not changed
  by the emergency step when no event fires.
\<close>

theorem update_emergency_transition:
  "emergency_status (fst (update env interactions (g, k))) =
     (if g k < 2 / 100 then True
      else if emergency_status env then \<not> g (Suc k) < 3 / 10
      else False)
   \<and> service_availability (fst (update env interactions (g, k))) =
     (if g k < 2 / 100 then
        service_availability (update_service_availability
          (update_system_load (env\<lparr>update_count := update_count env + 1\<rparr>) interactions)
          interactions) * (7 / 10)
      else
        service_availability (update_service_availability
          (update_system_load (env\<lparr>update_count := update_count env + 1\<rparr>) interactions)
          interactions))"
  by (simp add: update_unfold cee_cases arc_fields)

text \<open>
  C1, as claimed: during an ongoing emergency no entry event can occur, so the
  availability is never multiplied by 0.7 again. In an environment already in emergency,
  with availability 1 before the emergency step and a first draw of 0.01, the update
  leaves the emergency on and brings the availability to 0.7.
\<close>

theorem update_emergency_counterexample:
  "emergency_status ex_env
   \<and> service_availability (update_service_availability
        (update_system_load (ex_env\<lparr>update_count := update_count ex_env + 1\<rparr>) []) []) = 1
   \<and> emergency_status (fst (update ex_env [] ex_rng_low))
   \<and> service_availability (fst (update ex_env [] ex_rng_low)) = 7 / 10"
  by (simp add: update_unfold cee_cases arc_fields ex_rng_low_def)
     (simp add: ex_env_def update_service_availability_def update_system_load_def)

text \<open>
  C8, amended: in every call to \<open>Environment.update\<close>, every entry of the digital
  infrastructure map receives a drift \<open>uniform(-1, 1)\<close> from a draw of its own and is
  clamped to [0,100]; when \<open>emergency_status\<close> is True after the emergency step of the same
  call, every digital value is then multiplied by 0.98 (after the clamp). The physical
  infrastructure map is left unchanged.
\<close>

theorem update_infrastructure_changes:
  "digital_infrastructure (fst (update env interactions (g, k))) =
     map (\<lambda>(j, (area, v)).
            (area, (if emergency_status (fst (update env interactions (g, k)))
                    then max 0 (min 100 (v + (2 * g j - 1))) * (98 / 100)
                    else max 0 (min 100 (v + (2 * g j - 1))))))
         (enumerate (if \<not> g k < 2 / 100 \<and> emergency_status env then Suc (Suc k) else Suc k)
            (digital_infrastructure env))
   \<and> physical_infrastructure (fst (update env interactions (g, k))) = physical_infrastructure env"
  by (simp add: update_unfold cee_cases arc_fields arc_digital)

text \<open>
  C8, as claimed: every entry of both infrastructure maps receives a random drift. With a
  random source whose every draw gives the drift +0.5, the digital value 80 becomes 80.5
  while the physical value stays 80, and the update has consumed two draws only: one for
  the emergency check and one for the single digital entry.
\<close>

theorem update_physical_counterexample:
  "physical_infrastructure (fst (update ex_env_calm [] ex_rng_high)) = [(''core_area'', 80)]
   \<and> digital_infrastructure (fst (update ex_env_calm [] ex_rng_high)) = [(''core_area'', 161 / 2)]
   \<and> snd (snd (update ex_env_calm [] ex_rng_high)) = 2"
  apply (simp add: update_unfold cee_cases arc_fields arc_digital ex_rng_high_def)
  apply (simp add: ex_env_calm_def ex_env_def apply_random_changes_def drift_entries_enumerate)
  done

section \<open>Policy application\<close>

lemma apply_single_policy_policies:
  "apply_single_policy pf n c es = (es', e) \<Longrightarrow> policies (fst es') = policies (fst es)"
  by (auto simp: apply_single_policy_def split: prod.splits option.splits)

lemma apply_policies_policies:
  "apply_policies pf es names = (es', e) \<Longrightarrow> policies (fst es') = policies (fst es)"
proof (induction names arbitrary: es)
  case Nil
  then show ?case by simp
next
  case (Cons n names)
  show ?case
  proof (cases "policies (fst es) n")
    case None
    with Cons show ?thesis by simp
  next
    case (Some c)
    obtain es1 e1 where r: "apply_single_policy pf n c es = (es1, e1)" by (rule prod.exhaust)
    have p1: "policies (fst es1) = policies (fst es)" using apply_single_policy_policies [OF r] .
    show ?thesis
    proof (cases e1)
      case (Some err)
      with Cons.prems r \<open>policies (fst es) n = Some c\<close> p1 show ?thesis by auto
    next
      case None
      obtain eng s where es1: "es1 = (eng, s)" by (rule prod.exhaust)
      let ?es2 = "if n \<notin> set (applied_policies eng)
                  then (eng\<lparr>applied_policies := applied_policies eng @ [n]\<rparr>, s) else (eng, s)"
      from Cons.prems r None es1 \<open>policies (fst es) n = Some c\<close>
      have "apply_policies pf ?es2 names = (es', e)" by simp
      from Cons.IH [OF this] have "policies (fst es') = policies (fst ?es2)" .
      also have "\<dots> = policies eng" by simp
      finally show ?thesis using p1 es1 by simp
    qed
  qed
qed

lemma apply_policies_append:
  "apply_policies pf es (xs @ ys) =
     (case apply_policies pf es xs of
        (es', Some e) \<Rightarrow> (es', Some e)
      | (es', None) \<Rightarrow> apply_policies pf es' ys)"
proof (induction xs arbitrary: es)
  case Nil
  then show ?case by simp
next
  case (Cons n xs)
  show ?case
    by (cases "policies (fst es) n") (auto simp: Cons.IH split: prod.splits option.splits)
qed

text \<open>
  C10. For a policy name that is not in the policies configuration, \<open>PolicyEngine.apply\<close>
  is a no-op: applied to that name alone it returns the engine (its \<open>applied_policies\<close> and
  \<open>policy_history\<close>), the agents and the environment unchanged, without raising; and
  inside a list of names, the result is the one of the list without that name, so the
  names before and after it are processed as if it were absent.
\<close>

theorem apply_policies_unknown_name:
  assumes "policies eng policy_name = None"
  shows "apply_policies pf (eng, s) [policy_name] = ((eng, s), None)
       \<and> apply_policies pf (eng, s) (before @ policy_name # names)
           = apply_policies pf (eng, s) (before @ names)"
proof
  show "apply_policies pf (eng, s) [policy_name] = ((eng, s), None)"
    using assms by simp
next
  obtain es1 e1 where r: "apply_policies pf (eng, s) before = (es1, e1)" by (rule prod.exhaust)
  have "policies (fst es1) policy_name = None"
    using apply_policies_policies [OF r] assms by simp
  then have step: "apply_policies pf es1 (policy_name # names) = apply_policies pf es1 names"
    by simp
  show "apply_policies pf (eng, s) (before @ policy_name # names)
           = apply_policies pf (eng, s) (before @ names)"
    by (cases e1) (simp_all only: apply_policies_append r step prod.case option.case)
qed

theorem apply_policies_unknown_name_witness:
  "policies ex_engine ''no_such_policy'' = None
   \<and> apply_policies ex_pf (ex_engine, ex_sim) [''no_such_policy''] = ((ex_engine, ex_sim), None)
   \<and> apply_policies ex_pf (ex_engine, ex_sim)
        ([''digital_literacy_training''] @ ''no_such_policy'' # [''digital_literacy_training''])
      = apply_policies ex_pf (ex_engine, ex_sim)
        ([''digital_literacy_training''] @ [''digital_literacy_training''])"
proof -
  have h: "policies ex_engine ''no_such_policy'' = None" by (simp add: ex_engine_def)
  from apply_policies_unknown_name [OF h] h show ?thesis by blast
qed

lemma apply_attribute_changes_value:
  assumes "distinct (map fst cs)"
    and "apply_attribute_changes pf cs attrs = (attrs', None)"
    and "attrs a = Some (ANum v)"
  shows "attrs' a = Some (ANum (case map_of cs a of
                                  None \<Rightarrow> v
                                | Some c \<Rightarrow> min 100 (max 0 (v + parse_change_value pf c))))"
  using assms
proof (induction cs arbitrary: attrs v)
  case Nil
  then show ?case by simp
next
  case (Cons h cs)
  obtain k c0 where h: "h = (k, c0)" by (rule prod.exhaust)
  from Cons.prems(1) h have dist: "distinct (map fst cs)" and fresh: "k \<notin> fst ` set cs"
    by auto
  show ?case
  proof (cases "attrs k")
    case None
    with Cons.prems(3) have ne: "k \<noteq> a" by auto
    from Cons.prems(2) h None have "apply_attribute_changes pf cs attrs = (attrs', None)"
      by simp
    from Cons.IH [OF dist this Cons.prems(3)] ne h show ?thesis by simp
  next
    case (Some old)
    show ?thesis
    proof (cases old)
      case (AStr s)
      with Cons.prems(2) h Some show ?thesis by simp
    next
      case (ANum x)
      let ?attrs1 = "attrs(k \<mapsto> ANum (min 100 (max 0 (x + parse_change_value pf c0))))"
      from Cons.prems(2) h Some ANum
      have run: "apply_attribute_changes pf cs ?attrs1 = (attrs', None)" by simp
      show ?thesis
      proof (cases "k = a")
        case True
        with Some ANum Cons.prems(3) have xv: "x = v" by simp
        from True fresh have "map_of cs a = None" by (simp add: map_of_eq_None_iff)
        moreover have "?attrs1 a = Some (ANum (min 100 (max 0 (v + parse_change_value pf c0))))"
          using True xv by simp
        ultimately show ?thesis using Cons.IH [OF dist run, of _] True h by simp
      next
        case False
        then have "?attrs1 a = Some (ANum v)" using Cons.prems(3) by simp
        from Cons.IH [OF dist run this] False h show ?thesis by simp
      qed
    qed
  qed
qed

lemma map_until_error_ok:
  "map_until_error f xs = (ys, None) \<Longrightarrow>
     length ys = length xs \<and> (\<forall>i < length xs. f (xs ! i) = (ys ! i, None))"
proof (induction xs arbitrary: ys)
  case Nil
  then show ?case by simp
next
  case (Cons x xs)
  obtain x' e where fx: "f x = (x', e)" by (rule prod.exhaust)
  obtain xs' e' where r: "map_until_error f xs = (xs', e')" by (rule prod.exhaust)
  from Cons.prems fx r have e: "e = None" and e': "e' = None" and ys: "ys = x' # xs'"
    by (auto split: option.splits)
  from Cons.IH [of xs'] r e' have ih: "length xs' = length xs"
      "\<forall>i < length xs. f (xs ! i) = (xs' ! i, None)" by auto
  show ?case
  proof (intro conjI allI impI)
    show "length ys = length (x # xs)" using ys ih by simp
  next
    fix i assume "i < length (x # xs)"
    then show "f ((x # xs) ! i) = (ys ! i, None)"
      using ys ih fx e by (cases i) auto
  qed
qed

lemma apply_resident_changes_literacy:
  assumes "distinct (map fst (p_attribute_change pc))"
    and "map_of (p_attribute_change pc) ''information_literacy'' = Some c"
    and "apply_resident_changes pf pc r = (r', None)"
    and "attributes r ''information_literacy'' = Some (ANum v)"
  shows "attributes r' ''information_literacy''
         = Some (ANum (min 100 (max 0 (v + parse_change_value pf c))))"
proof -
  obtain attrs e where a: "apply_attribute_changes pf (p_attribute_change pc) (attributes r)
      = (attrs, e)" by (rule prod.exhaust)
  from assms(3) a have e: "e = None" and r': "attributes r' = attrs"
    by (auto simp: apply_resident_changes_def split: option.splits)
  from apply_attribute_changes_value [OF assms(1) a [unfolded e] assms(4)] assms(2) r'
  show ?thesis by simp
qed

lemma apply_resident_policy_literacy:
  assumes dist: "distinct (map fst (p_attribute_change pc))"
    and chg: "map_of (p_attribute_change pc) ''information_literacy'' = Some c"
    and run: "apply_resident_policy pf ''digital_literacy_training'' pc rs = (rs', None)"
    and i: "i < length rs"
    and v: "attributes (rs ! i) ''information_literacy'' = Some (ANum v)"
  shows "length rs' = length rs"
    and "attributes (rs' ! i) ''information_literacy''
         = Some (ANum (if v < 70 then min 100 (max 0 (v + parse_change_value pf c)) else v))"
proof -
  let ?f = "\<lambda>r. if literacy_target r = Inr True
                 then apply_resident_changes pf pc r else (r, None)"
  from run have m: "map_until_error ?f rs = (rs', None)"
    by (simp add: apply_resident_policy_def split: if_splits)
  from map_until_error_ok [OF m] i
  have len: "length rs' = length rs" and fi: "?f (rs ! i) = (rs' ! i, None)" by auto
  show "length rs' = length rs" by (rule len)
  have lt: "literacy_target (rs ! i) = Inr (v < 70)" using v by (simp add: literacy_target_def)
  show "attributes (rs' ! i) ''information_literacy''
         = Some (ANum (if v < 70 then min 100 (max 0 (v + parse_change_value pf c)) else v))"
  proof (cases "v < 70")
    case True
    with fi lt have "apply_resident_changes pf pc (rs ! i) = (rs' ! i, None)" by simp
    from apply_resident_changes_literacy [OF dist chg this v] True show ?thesis by simp
  next
    case False
    with fi lt have "rs' ! i = rs ! i" by simp
    with v False show ?thesis by simp
  qed
qed

lemma apply_policies_twice_resident:
  assumes pol: "policies eng n = Some pc"
    and tgt: "p_target pc = ''resident''"
    and run: "apply_policies pf (eng, s) [n, n] = ((eng', s'), None)"
  shows "\<exists>rs1. apply_resident_policy pf n pc (residents s) = (rs1, None)
             \<and> apply_resident_policy pf n pc rs1 = (residents s', None)"
proof -
  obtain rs1 e1 where r1: "apply_resident_policy pf n pc (residents s) = (rs1, e1)"
    by (rule prod.exhaust)
  obtain rs2 e2 where r2: "apply_resident_policy pf n pc rs1 = (rs2, e2)"
    by (rule prod.exhaust)
  from run pol tgt r1 have e1: "e1 = None"
    by (auto simp: apply_single_policy_def apply_policy_target_def split: option.splits if_splits)
  from run pol tgt r1 r2 e1 have "e2 = None \<and> residents s' = rs2"
    by (auto simp: apply_single_policy_def apply_policy_target_def split: option.splits if_splits)
  with r1 r2 e1 show ?thesis by auto
qed

text \<open>
  C3, amended: let \<open>d\<close> be the parsed change of \<open>information_literacy\<close> declared by the
  \<open>digital_literacy_training\<close> policy (target \<open>resident\<close>, distinct attribute names), and
  let applying the policy twice raise no error. The targets are selected again at each
  application, as the residents whose literacy is then below 70. So a resident with a
  numeric literacy \<open>v\<close> ends with \<open>v\<close> when \<open>v \<ge> 70\<close>; with \<open>v1 = min(100, max(0, v + d))\<close>
  (one change) when \<open>v < 70 \<le> v1\<close>; and with \<open>min(100, max(0, v1 + d))\<close> (two changes, each
  clamped to [0,100]) only when \<open>v1\<close> is still below 70.
\<close>

theorem digital_literacy_training_twice:
  assumes pol: "policies eng ''digital_literacy_training'' = Some pc"
    and tgt: "p_target pc = ''resident''"
    and dist: "distinct (map fst (p_attribute_change pc))"
    and chg: "map_of (p_attribute_change pc) ''information_literacy'' = Some c"
    and run: "apply_policies pf (eng, s)
                [''digital_literacy_training'', ''digital_literacy_training''] = ((eng', s'), None)"
    and i: "i < length (residents s)"
    and v: "attributes (residents s ! i) ''information_literacy'' = Some (ANum v)"
  shows "attributes (residents s' ! i) ''information_literacy'' =
           Some (ANum (let d = parse_change_value pf c;
                           v1 = (if v < 70 then min 100 (max 0 (v + d)) else v)
                       in if v1 < 70 then min 100 (max 0 (v1 + d)) else v1))"
proof -
  from apply_policies_twice_resident [OF pol tgt run] obtain rs1 where
    r1: "apply_resident_policy pf ''digital_literacy_training'' pc (residents s) = (rs1, None)" and
    r2: "apply_resident_policy pf ''digital_literacy_training'' pc rs1 = (residents s', None)"
    by blast
  note s1 = apply_resident_policy_literacy [OF dist chg r1 i v]
  from s1(1) i have i1: "i < length rs1" by simp
  from apply_resident_policy_literacy(2) [OF dist chg r2 i1 s1(2)]
  show ?thesis by (simp add: Let_def)
qed

lemma strip_plus20: "strip ''+20'' = ''+20''"
  by (simp add: strip_def is_space_def)

lemma ex_change: "parse_change_value ex_pf (CStr ''+20'') = 20"
  by (simp add: parse_change_value_def strip_plus20 ex_pf_def)

lemma ex_resident_policy_once:
  "apply_resident_policy ex_pf ''digital_literacy_training'' ex_policy [ex_resident]
     = ([ex_resident\<lparr>attributes := (attributes ex_resident)(''information_literacy'' \<mapsto> ANum 75)\<rparr>], None)"
  by (simp add: apply_resident_policy_def literacy_target_def ex_resident_def ex_policy_def
      apply_resident_changes_def ex_change)

lemma ex_resident_policy_again:
  "apply_resident_policy ex_pf ''digital_literacy_training'' ex_policy
     [ex_resident\<lparr>attributes := (attributes ex_resident)(''information_literacy'' \<mapsto> ANum 75)\<rparr>]
     = ([ex_resident\<lparr>attributes := (attributes ex_resident)(''information_literacy'' \<mapsto> ANum 75)\<rparr>], None)"
  by (simp add: apply_resident_policy_def literacy_target_def)

lemma ex_target: "p_target ex_policy = ''resident''"
  by (simp add: ex_policy_def)

lemma ex_policies: "policies ex_engine ''digital_literacy_training'' = Some ex_policy"
  by (simp add: ex_engine_def)

lemma ex_once:
  "residents (snd (fst (apply_policies ex_pf (ex_engine, ex_sim) [''digital_literacy_training''])))
     = [ex_resident\<lparr>attributes := (attributes ex_resident)(''information_literacy'' \<mapsto> ANum 75)\<rparr>]"
  by (simp add: ex_policies apply_single_policy_def apply_policy_target_def ex_target
      ex_resident_policy_once ex_sim_def)

lemma ex_twice:
  "apply_policies ex_pf (ex_engine, ex_sim)
      [''digital_literacy_training'', ''digital_literacy_training'']
   = ((ex_engine\<lparr>applied_policies := [''digital_literacy_training''],
        policy_history := [(''digital_literacy_training'', ''resident'', ex_policy),
                           (''digital_literacy_training'', ''resident'', ex_policy)]\<rparr>,
       ex_sim\<lparr>residents := [ex_resident\<lparr>attributes :=
          (attributes ex_resident)(''information_literacy'' \<mapsto> ANum 75)\<rparr>]\<rparr>), None)"
  apply (simp add: ex_policies apply_single_policy_def apply_policy_target_def ex_target
      ex_resident_policy_once ex_resident_policy_again ex_sim_def)
  apply (simp add: ex_engine_def)
  done

text \<open>
  C3, as claimed: a resident who was a target of the first application receives the
  change again on the second. With a change of +20, a resident of literacy 55 is at 75
  after one application and still at 75 after two: the second application does not select
  it, and the clamp at 100 is not involved.
\<close>

theorem digital_literacy_training_twice_counterexample:
  "attributes ex_resident ''information_literacy'' = Some (ANum 55)
   \<and> map (\<lambda>r. attributes r ''information_literacy'')
       (residents (snd (fst (apply_policies ex_pf (ex_engine, ex_sim)
          [''digital_literacy_training'']))))
     = [Some (ANum 75)]
   \<and> map (\<lambda>r. attributes r ''information_literacy'')
       (residents (snd (fst (apply_policies ex_pf (ex_engine, ex_sim)
          [''digital_literacy_training'', ''digital_literacy_training'']))))
     = [Some (ANum 75)]"
  by (simp only: ex_twice ex_once) (simp add: ex_resident_def)

theorem digital_literacy_training_twice_witness:
  "policies ex_engine ''digital_literacy_training'' = Some ex_policy
   \<and> p_target ex_policy = ''resident''
   \<and> distinct (map fst (p_attribute_change ex_policy))
   \<and> map_of (p_attribute_change ex_policy) ''information_literacy'' = Some (CStr ''+20'')
   \<and> snd (apply_policies ex_pf (ex_engine, ex_sim)
         [''digital_literacy_training'', ''digital_literacy_training'']) = None
   \<and> 0 < length (residents ex_sim)
   \<and> attributes (residents ex_sim ! 0) ''information_literacy'' = Some (ANum 55)
   \<and> attributes (residents (snd (fst (apply_policies ex_pf (ex_engine, ex_sim)
         [''digital_literacy_training'', ''digital_literacy_training'']))) ! 0)
        ''information_literacy'' = Some (ANum 75)"
proof -
  have h3: "distinct (map fst (p_attribute_change ex_policy))"
    and h4: "map_of (p_attribute_change ex_policy) ''information_literacy'' = Some (CStr ''+20'')"
    by (simp_all add: ex_policy_def)
  have h6: "0 < length (residents ex_sim)"
    and h7: "attributes (residents ex_sim ! 0) ''information_literacy'' = Some (ANum 55)"
    by (simp_all add: ex_sim_def ex_resident_def)
  from digital_literacy_training_twice [OF ex_policies ex_target h3 h4 ex_twice h6 h7]
  show ?thesis
    using ex_policies ex_target h3 h4 h6 h7
    by (simp only: ex_twice ex_change) simp
qed

section \<open>Bounds of the agent values are preserved\<close>

lemma map_until_error_preserves:
  assumes "\<And>x. P x \<Longrightarrow> P (fst (f x))" and "list_all P xs"
  shows "list_all P (fst (map_until_error f xs))"
  using assms(2)
proof (induction xs)
  case Nil
  then show ?case by simp
next
  case (Cons x xs)
  from Cons.prems have px: "P x" and pxs: "list_all P xs" by simp_all
  from assms(1) [OF px] Cons.IH [OF pxs] pxs show ?case
    by (auto split: prod.splits option.splits)
qed

lemma attrs_bounded_mono:
  assumes "\<And>n. attr_in_range 0 100 (attributes a n) \<Longrightarrow> attr_in_range 0 100 (attributes b n)"
    and "attrs_bounded names a"
  shows "attrs_bounded names b"
  using assms by (auto simp: attrs_bounded_def list_all_iff)

lemma attr_in_range_upd:
  "attr_in_range lo hi ((m(k \<mapsto> ANum x)) n) =
     (if n = k then lo \<le> x \<and> x \<le> hi else attr_in_range lo hi (m n))"
  by (simp add: attr_in_range_def)

lemma apply_attribute_changes_range:
  "attr_in_range 0 100 (attrs n) \<Longrightarrow>
   attr_in_range 0 100 (fst (apply_attribute_changes pf cs attrs) n)"
proof (induction cs arbitrary: attrs)
  case Nil
  then show ?case by simp
next
  case (Cons h cs)
  obtain k c where h: "h = (k, c)" by (rule prod.exhaust)
  show ?case
  proof (cases "attrs k")
    case None
    with Cons h show ?thesis by simp
  next
    case (Some old)
    show ?thesis
    proof (cases old)
      case (AStr s)
      with Cons.prems h Some show ?thesis by simp
    next
      case (ANum x)
      have "attr_in_range 0 100
              ((attrs(k \<mapsto> ANum (min 100 (max 0 (x + parse_change_value pf c))))) n)"
        using Cons.prems by (simp add: attr_in_range_def)
      then have "attr_in_range 0 100 (fst (apply_attribute_changes pf cs
              (attrs(k \<mapsto> ANum (min 100 (max 0 (x + parse_change_value pf c)))))) n)"
        by (rule Cons.IH)
      moreover have "apply_attribute_changes pf (h # cs) attrs = apply_attribute_changes pf cs
              (attrs(k \<mapsto> ANum (min 100 (max 0 (x + parse_change_value pf c)))))"
        using h Some ANum by simp
      ultimately show ?thesis by (simp only:)
    qed
  qed
qed

lemma attribute_policy_agent:
  assumes "apply_attribute_changes pf cs (attributes a) = (attrs, e)"
  shows "attrs_bounded names a \<Longrightarrow> attrs_bounded names (a\<lparr>attributes := attrs\<rparr>)"
    and "attr_in_range 0 100 (attributes a n) \<Longrightarrow> attr_in_range 0 100 (attrs n)"
proof -
  have r: "\<And>n. attr_in_range 0 100 (attributes a n) \<Longrightarrow> attr_in_range 0 100 (attrs n)"
    using apply_attribute_changes_range [of "attributes a" _ pf cs] assms by simp
  show "attr_in_range 0 100 (attributes a n) \<Longrightarrow> attr_in_range 0 100 (attrs n)" by (rule r)
  show "attrs_bounded names a \<Longrightarrow> attrs_bounded names (a\<lparr>attributes := attrs\<rparr>)"
    by (rule attrs_bounded_mono [of a]) (simp_all add: r)
qed

lemma apply_resident_changes_bounded:
  assumes "resident_bounded names r"
  shows "resident_bounded names (fst (apply_resident_changes pf pc r))"
proof -
  obtain attrs e where a: "apply_attribute_changes pf (p_attribute_change pc) (attributes r)
      = (attrs, e)" by (rule prod.exhaust)
  from assms attribute_policy_agent [OF a] show ?thesis
    by (cases e) (simp_all add: apply_resident_changes_def a resident_bounded_def attrs_bounded_def)
qed

lemma apply_resident_policy_bounded:
  assumes "list_all (resident_bounded names) rs"
  shows "list_all (resident_bounded names) (fst (apply_resident_policy pf n pc rs))"
proof -
  have 1: "list_all (resident_bounded names) (fst (map_until_error
             (\<lambda>r. if literacy_target r = Inr True
                   then apply_resident_changes pf pc r else (r, None)) rs))"
    by (rule map_until_error_preserves [OF _ assms]) (simp add: apply_resident_changes_bounded)
  have 2: "list_all (resident_bounded names) (fst (map_until_error
             (apply_resident_changes pf pc) rs))"
    by (rule map_until_error_preserves [OF _ assms]) (simp add: apply_resident_changes_bounded)
  from 1 2 assms show ?thesis by (simp add: apply_resident_policy_def)
qed

lemma apply_enterprise_policy_bounded:
  assumes "list_all (enterprise_bounded names) es"
  shows "list_all (enterprise_bounded names) (fst (apply_enterprise_policy pf pc es))"
  unfolding apply_enterprise_policy_def
proof (rule map_until_error_preserves [OF _ assms])
  fix e assume b: "enterprise_bounded names e"
  obtain attrs err where a: "apply_attribute_changes pf (p_attribute_change pc) (attributes e)
      = (attrs, err)" by (rule prod.exhaust)
  from b attribute_policy_agent(1) [OF a]
  show "enterprise_bounded names (fst (apply_enterprise_changes pf pc e))"
    by (simp add: apply_enterprise_changes_def a enterprise_bounded_def attrs_bounded_def)
qed

lemma apply_government_policy_bounded:
  assumes b: "government_bounded names g"
  shows "government_bounded names (fst (apply_government_policy pf pc g))"
proof -
  obtain attrs err where a: "apply_attribute_changes pf (p_attribute_change pc) (attributes g)
      = (attrs, err)" by (rule prod.exhaust)
  from b attribute_policy_agent(1) [OF a] show ?thesis
    by (simp add: apply_government_policy_def a government_bounded_def attrs_bounded_def)
qed

lemma data_open_sharing_effect_bounded:
  assumes b: "enterprise_bounded names e"
  shows "enterprise_bounded names (fst (data_open_sharing_effect e))"
proof -
  have "attrs_bounded names
          (e\<lparr>attributes := (attributes e)(''data_sharing_willingness'' \<mapsto> ANum (8 / 10))\<rparr>)"
    using b by (rule_tac a = e in attrs_bounded_mono)
      (simp_all add: attr_in_range_def enterprise_bounded_def)
  with b show ?thesis
    by (simp add: data_open_sharing_effect_def Let_def enterprise_bounded_def)
qed

lemma algorithm_regulation_effect_bounded:
  assumes b: "enterprise_bounded names e"
  shows "enterprise_bounded names (fst (algorithm_regulation_effect e))"
proof (cases "attributes e ''data_usage_compliance''")
  case None
  have "attrs_bounded names
          (e\<lparr>attributes := (attributes e)(''data_usage_compliance'' \<mapsto> ANum (min 100 (90 + 5)))\<rparr>)"
    using b by (rule_tac a = e in attrs_bounded_mono)
      (simp_all add: attr_in_range_def enterprise_bounded_def)
  with b None show ?thesis
    by (simp add: algorithm_regulation_effect_def enterprise_bounded_def)
next
  case (Some old)
  show ?thesis
  proof (cases old)
    case (AStr s)
    with b Some show ?thesis by (simp add: algorithm_regulation_effect_def)
  next
    case (ANum x)
    have "attrs_bounded names
          (e\<lparr>attributes := (attributes e)(''data_usage_compliance'' \<mapsto> ANum (min 100 (x + 5)))\<rparr>)"
    proof (rule attrs_bounded_mono [of e])
      fix n
      assume "attr_in_range 0 100 (attributes e n)"
      then show "attr_in_range 0 100 (attributes
          (e\<lparr>attributes := (attributes e)(''data_usage_compliance'' \<mapsto> ANum (min 100 (x + 5)))\<rparr>) n)"
        using Some ANum by (auto simp: attr_in_range_upd attr_in_range_def)
    qed (use b in \<open>simp add: enterprise_bounded_def\<close>)
    with b Some ANum show ?thesis
      by (simp add: algorithm_regulation_effect_def enterprise_bounded_def)
  qed
qed

lemma apply_government_enterprise_policy_bounded:
  assumes g: "government_bounded names gov" and e: "list_all (enterprise_bounded names) ents"
  shows "government_bounded names (fst (fst (apply_government_enterprise_policy pf n pc gov ents)))"
    and "list_all (enterprise_bounded names)
           (snd (fst (apply_government_enterprise_policy pf n pc gov ents)))"
proof -
  have g': "\<And>pm. government_bounded names (gov\<lparr>policy_modifiers := pm\<rparr>)"
    using g by (simp add: government_bounded_def attrs_bounded_def)
  have d: "list_all (enterprise_bounded names) (fst (map_until_error data_open_sharing_effect ents))"
    by (rule map_until_error_preserves [OF _ e]) (rule data_open_sharing_effect_bounded)
  have a: "list_all (enterprise_bounded names)
             (fst (map_until_error algorithm_regulation_effect ents))"
    by (rule map_until_error_preserves [OF _ e]) (rule algorithm_regulation_effect_bounded)
  obtain pm err where rc: "apply_rule_changes pf (p_rule_change pc)
      (case policy_modifiers gov of None \<Rightarrow> Map.empty | Some pm \<Rightarrow> pm) = (pm, err)"
    by (rule prod.exhaust)
  show "government_bounded names (fst (fst (apply_government_enterprise_policy pf n pc gov ents)))"
    using g' by (cases err)
      (simp_all add: apply_government_enterprise_policy_def rc Let_def case_prod_beta)
  show "list_all (enterprise_bounded names)
           (snd (fst (apply_government_enterprise_policy pf n pc gov ents)))"
    using e d a by (cases err)
      (simp_all add: apply_government_enterprise_policy_def rc Let_def case_prod_beta)
qed

lemma apply_policy_target_bounded:
  assumes "sim_bounded names s"
  shows "sim_bounded names (fst (apply_policy_target pf n pc s))"
proof -
  from assms have g: "government_bounded names (government s)"
    and e: "list_all (enterprise_bounded names) (enterprises s)"
    and r: "list_all (resident_bounded names) (residents s)"
    by (simp_all add: sim_bounded_def)
  note r' = apply_resident_policy_bounded [OF r, of pf n pc]
  note ge' = apply_government_enterprise_policy_bounded [OF g e, of pf n pc]
  note g' = apply_government_policy_bounded [OF g, of pf pc]
  note e' = apply_enterprise_policy_bounded [OF e, of pf pc]
  show ?thesis
    using g e r r' ge' g' e'
    by (simp add: apply_policy_target_def Let_def sim_bounded_def case_prod_beta)
qed

lemma apply_single_policy_bounded:
  assumes "sim_bounded names (snd es)"
  shows "sim_bounded names (snd (fst (apply_single_policy pf n pc es)))"
proof -
  obtain s' e where r: "apply_policy_target pf n pc (snd es) = (s', e)" by (rule prod.exhaust)
  from apply_policy_target_bounded [OF assms, of pf n pc] r show ?thesis
    by (cases e) (simp_all add: apply_single_policy_def)
qed

lemma apply_policies_bounded:
  "sim_bounded names (snd es) \<Longrightarrow> sim_bounded names (snd (fst (apply_policies pf es ns)))"
proof (induction ns arbitrary: es)
  case Nil
  then show ?case by simp
next
  case (Cons n ns)
  show ?case
  proof (cases "policies (fst es) n")
    case None
    with Cons show ?thesis by simp
  next
    case (Some pc)
    obtain eng s e where r: "apply_single_policy pf n pc es = ((eng, s), e)"
      by (metis surj_pair)
    from apply_single_policy_bounded [OF Cons.prems, of pf n pc] r
    have b: "sim_bounded names s" by simp
    show ?thesis
    proof (cases e)
      case (Some err)
      with r b \<open>policies (fst es) n = Some pc\<close> show ?thesis by simp
    next
      case None
      have "sim_bounded names (snd (fst (apply_policies pf
              (if n \<notin> set (applied_policies eng)
               then (eng\<lparr>applied_policies := applied_policies eng @ [n]\<rparr>, s) else (eng, s)) ns)))"
        by (rule Cons.IH) (simp add: b)
      with r None \<open>policies (fst es) n = Some pc\<close> show ?thesis by simp
    qed
  qed
qed

lemma government_step_bounded:
  "government_bounded names g \<Longrightarrow> government_bounded names (government_step g i)"
  by (simp add: government_step_def government_bounded_def attrs_bounded_def in_range_def
      state_get_def Let_def split: option.splits)

lemma enterprise_step_bounded:
  "enterprise_bounded names e \<Longrightarrow> enterprise_bounded names (enterprise_step e i)"
  by (simp add: enterprise_step_def enterprise_bounded_def attrs_bounded_def in_range_def
      state_get_def Let_def split: option.splits)

lemma foldl_preserves:
  "(\<And>x y. P x \<Longrightarrow> P (f x y)) \<Longrightarrow> P a \<Longrightarrow> P (foldl f a ys)"
  by (induction ys arbitrary: a) simp_all

lemma trust_update_bounded:
  assumes b: "resident_bounded names r"
    and c: "\<And>x. 0 \<le> x \<Longrightarrow> x \<le> 102 \<Longrightarrow> 0 \<le> clamp (x + delta) \<and> clamp (x + delta) \<le> 100"
  shows "resident_bounded names (fst (trust_update r delta clamp))"
proof (cases "attributes r ''trust_in_government''")
  case None
  have v: "0 \<le> clamp (80 + delta) \<and> clamp (80 + delta) \<le> 100" by (rule c) simp_all
  have "attrs_bounded names
          (r\<lparr>attributes := (attributes r)(''trust_in_government'' \<mapsto> ANum (clamp (80 + delta)))\<rparr>)"
    using b v by (rule_tac a = r in attrs_bounded_mono)
      (simp_all add: attr_in_range_def resident_bounded_def)
  with b None v show ?thesis
    by (simp add: trust_update_def resident_bounded_def attr_in_range_def)
next
  case (Some old)
  show ?thesis
  proof (cases old)
    case (AStr s)
    with b Some show ?thesis by (simp add: trust_update_def)
  next
    case (ANum x)
    from b Some ANum have "0 \<le> x \<and> x \<le> 100"
      by (simp add: resident_bounded_def attr_in_range_def)
    then have v: "0 \<le> clamp (x + delta) \<and> clamp (x + delta) \<le> 100" by (intro c) simp_all
    have "attrs_bounded names
          (r\<lparr>attributes := (attributes r)(''trust_in_government'' \<mapsto> ANum (clamp (x + delta)))\<rparr>)"
      using b v by (rule_tac a = r in attrs_bounded_mono)
        (simp_all add: attr_in_range_def resident_bounded_def)
    with b Some ANum v show ?thesis
      by (simp add: trust_update_def resident_bounded_def attr_in_range_def)
  qed
qed

lemma satisfaction_update_bounded:
  assumes "resident_bounded names r" and "1 \<le> x" and "x \<le> 5"
  shows "resident_bounded names (r\<lparr>state := (state r)(''satisfaction'' \<mapsto> x)\<rparr>)"
  using assms by (simp add: resident_bounded_def attrs_bounded_def in_range_def)

lemma satisfaction_get_bounded:
  assumes "resident_bounded names r"
  shows "1 \<le> state_get r ''satisfaction'' 3" and "state_get r ''satisfaction'' 3 \<le> 5"
  using assms by (simp_all add: resident_bounded_def in_range_def state_get_def split: option.splits)

lemma resident_step_bounded:
  assumes b: "resident_bounded names r"
  shows "resident_bounded names (fst (resident_step r i))"
proof -
  note sg = satisfaction_get_bounded [OF b]
  have up: "resident_bounded names (r\<lparr>state := (state r)(''satisfaction'' \<mapsto>
                  min 5 (state_get r ''satisfaction'' 3 + 1 / 10))\<rparr>)"
    using sg by (intro satisfaction_update_bounded [OF b]) simp_all
  have down: "resident_bounded names (r\<lparr>state := (state r)(''satisfaction'' \<mapsto>
                  max 1 (state_get r ''satisfaction'' 3 - 5 / 100))\<rparr>)"
    using sg by (intro satisfaction_update_bounded [OF b]) simp_all
  have t1: "resident_bounded names (fst (trust_update r 1 (min 100)))"
    by (rule trust_update_bounded [OF b]) simp
  have t2: "resident_bounded names (fst (trust_update
              (r\<lparr>state := (state r)(''satisfaction'' \<mapsto>
                  max 1 (state_get r ''satisfaction'' 3 - 5 / 100))\<rparr>) (- 2) (max 0)))"
    by (rule trust_update_bounded [OF down]) simp
  from b up down t1 t2 show ?thesis
    by (simp add: resident_step_def Let_def)
qed

lemma update_resident_state_bounded:
  "resident_bounded names r \<Longrightarrow> resident_bounded names (fst (update_resident_state r is))"
proof (induction "is" arbitrary: r)
  case Nil
  then show ?case by simp
next
  case (Cons i "is")
  obtain r' e where s: "resident_step r i = (r', e)" by (rule prod.exhaust)
  from resident_step_bounded [OF Cons.prems, of i] s have b': "resident_bounded names r'" by simp
  show ?case
  proof (cases e)
    case None
    with s Cons.IH [OF b'] show ?thesis by simp
  next
    case (Some err)
    with s b' show ?thesis by simp
  qed
qed

lemma update_agent_states_bounded:
  assumes "sim_bounded names s"
  shows "sim_bounded names (fst (update_agent_states s interactions))"
proof -
  from assms have g: "government_bounded names (government s)"
    and e: "list_all (enterprise_bounded names) (enterprises s)"
    and r: "list_all (resident_bounded names) (residents s)"
    by (simp_all add: sim_bounded_def)
  have g': "\<And>xs. government_bounded names (update_government_state (government s) xs)"
    unfolding update_government_state_def
    by (rule foldl_preserves [where P = "government_bounded names"])
       (simp_all add: government_step_bounded g)
  have e1: "\<And>x xs. enterprise_bounded names x \<Longrightarrow>
              enterprise_bounded names (update_enterprise_state x xs)"
    unfolding update_enterprise_state_def
    by (rule foldl_preserves [where P = "enterprise_bounded names"])
       (simp_all add: enterprise_step_bounded)
  have e': "list_all (enterprise_bounded names) (map
            (\<lambda>enterprise.
               let aid = (case agent_id enterprise of None \<Rightarrow> ''enterprise'' | Some x \<Rightarrow> x)
               in if interactions_of aid interactions \<noteq> [] then
                    update_enterprise_state enterprise (interactions_of aid interactions)
                  else enterprise)
            (enterprises s))"
    using e e1 by (auto simp: list_all_iff Let_def)
  have r': "list_all (resident_bounded names) (fst (map_until_error
                (\<lambda>resident.
                   let aid = (case agent_id resident of None \<Rightarrow> ''resident'' | Some x \<Rightarrow> x)
                   in if interactions_of aid interactions \<noteq> [] then
                        update_resident_state resident (interactions_of aid interactions)
                      else (resident, None))
                (residents s)))"
    by (rule map_until_error_preserves [OF _ r])
       (simp add: Let_def update_resident_state_bounded)
  from g g' e' r' show ?thesis
    by (simp add: update_agent_states_def sim_bounded_def Let_def case_prod_beta)
qed

lemma step_event_bounded:
  "sim_bounded names s \<Longrightarrow> sim_bounded names (step_event pf s ev)"
proof (cases ev)
  case (Folding interactions)
  assume "sim_bounded names s"
  from update_agent_states_bounded [OF this] Folding show ?thesis by simp
next
  case (Policies eng ns)
  assume "sim_bounded names s"
  then have "sim_bounded names (snd (eng, s))" by simp
  from apply_policies_bounded [OF this] Policies show ?thesis by simp
qed

text \<open>
  C4. Along every sequence of state foldings (for any interaction lists) and policy
  applications (for any engine, policy configuration and list of names), also through
  steps that raise, every bounded agent value stays within its bounds: the government's
  \<open>resource_utilization\<close> in [0,1], each enterprise's \<open>innovation_level\<close> in [0,100] and
  \<open>market_share\<close> in [0,1], each resident's \<open>satisfaction\<close> in [1,5] and
  \<open>trust_in_government\<close> in [0,100], and every numeric attribute of any list of
  attribute names (those that policies adjust) in [0,100].
\<close>

theorem bounds_preserved:
  assumes "sim_bounded names s"
  shows "sim_bounded names (run_events pf s evs)"
  unfolding run_events_def
  by (rule foldl_preserves [where P = "sim_bounded names"])
     (simp_all add: step_event_bounded assms)

lemma ex_sim_bounded: "sim_bounded [''information_literacy''] ex_sim"
  by (simp add: sim_bounded_def ex_sim_def government_bounded_def enterprise_bounded_def
      resident_bounded_def attrs_bounded_def in_range_def attr_in_range_def
      ex_government_def ex_enterprise_def ex_resident_def)

theorem bounds_preserved_witness:
  "sim_bounded [''information_literacy''] ex_sim
   \<and> sim_bounded [''information_literacy'']
        (run_events ex_pf ex_sim
           [Folding ex_failed,
            Policies ex_engine [''digital_literacy_training'', ''digital_literacy_training'']])"
  using bounds_preserved [OF ex_sim_bounded] ex_sim_bounded by blast

section \<open>State folding of a failed enterprise interaction\<close>

lemma ex_failed_government:
  "interactions_of ''government'' ex_failed = ex_failed"
  by (simp add: interactions_of_def ex_failed_def mk_interaction_def)

lemma ex_failed_enterprise:
  "interactions_of ''enterprise_0'' ex_failed = ex_failed"
  by (simp add: interactions_of_def ex_failed_def mk_interaction_def)

lemma ex_failed_resident:
  "interactions_of ''resident_0'' ex_failed = []"
  by (simp add: interactions_of_def ex_failed_def mk_interaction_def)

lemma ex_failed_enterprise_state:
  "update_enterprise_state ex_enterprise ex_failed = ex_enterprise"
  by (simp add: update_enterprise_state_def ex_failed_def enterprise_step_def get_outcome_def
      get_type_def mk_interaction_def)

lemma ex_failed_government_state:
  "state (update_government_state ex_government ex_failed) ''resource_utilization''
     = Some (68 / 100)"
  by (simp add: update_government_state_def ex_failed_def government_step_def get_outcome_def
      mk_interaction_def state_get_def ex_government_def)

lemma ex_failed_update:
  "update_agent_states ex_sim ex_failed =
     (ex_sim\<lparr>government := update_government_state ex_government ex_failed,
             enterprises := [ex_enterprise], residents := [ex_resident]\<rparr>, None)"
proof -
  have ids: "agent_id ex_enterprise = Some ''enterprise_0''"
      "agent_id ex_resident = Some ''resident_0''"
    by (simp_all add: ex_enterprise_def ex_resident_def)
  have ne: "ex_failed \<noteq> []" by (simp add: ex_failed_def)
  have sel: "government ex_sim = ex_government" "enterprises ex_sim = [ex_enterprise]"
      "residents ex_sim = [ex_resident]"
    by (simp_all add: ex_sim_def)
  show ?thesis
    by (simp add: update_agent_states_def Let_def sel ids ex_failed_government
        ex_failed_enterprise ex_failed_resident ex_failed_enterprise_state ne)
qed

text \<open>
  C5, evaluated at a failing input: an enterprise with \<open>innovation_level\<close> 50 and
  \<open>market_share\<close> 0.1 takes part in a failed procurement and in a regulation violation.
  The folding leaves the enterprise as it was, while the government's
  \<open>resource_utilization\<close> is lowered twice, from 0.70 to 0.68.
\<close>

theorem enterprise_failed_not_lowered:
  "snd (update_agent_states ex_sim ex_failed) = None
   \<and> enterprises (fst (update_agent_states ex_sim ex_failed)) = enterprises ex_sim
   \<and> state (government ex_sim) ''resource_utilization'' = Some (70 / 100)
   \<and> state (government (fst (update_agent_states ex_sim ex_failed))) ''resource_utilization''
       = Some (68 / 100)"
  by (simp add: ex_failed_update ex_failed_government_state)
     (simp add: ex_sim_def ex_government_def)

section \<open>A missing service provision rule\<close>

lemma collect_first_raises:
  assumes "xs \<noteq> []" and "\<And>x r. f x r = (Inl e, r)"
  shows "collect f xs r = (Inl e, r)"
  using assms by (cases xs) simp_all

lemma service_provision_missing_rule:
  assumes act: "d_action gov_decision = Some ''service_provision''"
    and miss: "(case rules_config ''government_resident'' of None \<Rightarrow> Map.empty | Some t \<Rightarrow> t)
                 ''service_provision'' = None"
    and smp: "fst (sample ro r rs (min 20 (length rs))) \<noteq> []"
  shows "process_government_resident_interactions ro rules_config gov rs gov_decision
           res_decisions r
         = (Inl KeyError, snd (sample ro r rs (min 20 (length rs))))"
proof -
  obtain sel r1 where s: "sample ro r rs (min 20 (length rs)) = (sel, r1)"
    by (rule prod.exhaust)
  from smp s have ne: "sel \<noteq> []" by simp
  have "collect
          (\<lambda>resident r'.
             case (case rules_config ''government_resident'' of
                     None \<Rightarrow> Map.empty | Some t \<Rightarrow> t) ''service_provision'' of
               None \<Rightarrow> (Inl KeyError, r')
             | Some ru \<Rightarrow> create_service_interaction gov resident gov_decision ru r')
          sel r1 = (Inl KeyError, r1)"
    by (rule collect_first_raises [OF ne]) (simp add: miss)
  then show ?thesis
    by (simp add: process_government_resident_interactions_def Let_def act s then_extend_def)
qed

lemma process_missing_rule:
  assumes act: "d_action gov_decision = Some ''service_provision''"
    and miss: "(case rules_config ''government_resident'' of None \<Rightarrow> Map.empty | Some t \<Rightarrow> t)
                 ''service_provision'' = None"
    and stage1: "process_government_enterprise_interactions rules_config (government s)
                   (enterprises s) gov_decision ent_decisions r = (Inr xs, r1)"
    and smp: "fst (sample ro r1 (residents s) (min 20 (length (residents s)))) \<noteq> []"
  shows "po_result (process ro rules_config history s gov_decision ent_decisions res_decisions r)
           = Inl KeyError"
    and "po_sim (process ro rules_config history s gov_decision ent_decisions res_decisions r) = s"
    and "po_history (process ro rules_config history s gov_decision ent_decisions res_decisions r)
           = history"
proof -
  have gr: "process_government_resident_interactions ro rules_config (government s) (residents s)
              gov_decision res_decisions r1
            = (Inl KeyError, snd (sample ro r1 (residents s) (min 20 (length (residents s)))))"
    using act miss smp by (rule service_provision_missing_rule)
  show "po_result (process ro rules_config history s gov_decision ent_decisions res_decisions r)
           = Inl KeyError"
    by (simp add: process_def then_extend_def stage1 gr)
  show "po_sim (process ro rules_config history s gov_decision ent_decisions res_decisions r) = s"
    by (simp add: process_def then_extend_def stage1 gr)
  show "po_history (process ro rules_config history s gov_decision ent_decisions res_decisions r)
           = history"
    by (simp add: process_def then_extend_def stage1 gr)
qed

lemma run_round_raises:
  assumes "po_result (process ro rules_config (dr_history dr) (dr_sim dr) gov_decision
             ent_decisions res_decisions (dr_rng dr)) = Inl e"
  shows "dr_records (run_round ro rules_config n gov_decision ent_decisions res_decisions dr)
           = dr_records dr"
    and "environment (dr_sim (run_round ro rules_config n gov_decision ent_decisions
           res_decisions dr))
         = environment (po_sim (process ro rules_config (dr_history dr) (dr_sim dr) gov_decision
             ent_decisions res_decisions (dr_rng dr)))"
  using assms by (simp_all add: run_round_def Let_def)

lemma ex_stage1:
  "process_government_enterprise_interactions ex_rules (government ex_sim) (enterprises ex_sim)
     ex_gov_decision [ex_ent_decision] ex_rng_high = (Inr [], ex_rng_high)"
  by (simp add: process_government_enterprise_interactions_def then_extend_def ex_gov_decision_def
      ex_sim_def ex_ent_decision_def create_ent_gov_interaction_def)

lemma ex_process:
  "po_result (process ex_random_ops ex_rules [] ex_sim ex_gov_decision [ex_ent_decision]
     [ex_res_decision] ex_rng_high) = Inl KeyError"
  "po_sim (process ex_random_ops ex_rules [] ex_sim ex_gov_decision [ex_ent_decision]
     [ex_res_decision] ex_rng_high) = ex_sim"
proof -
  have act: "d_action ex_gov_decision = Some ''service_provision''"
    by (simp add: ex_gov_decision_def)
  have miss: "(case ex_rules ''government_resident'' of None \<Rightarrow> Map.empty | Some t \<Rightarrow> t)
                 ''service_provision'' = None"
    by (simp add: ex_rules_def)
  have smp: "fst (sample ex_random_ops ex_rng_high (residents ex_sim)
                    (min 20 (length (residents ex_sim)))) \<noteq> []"
    by (simp add: ex_random_ops_def ex_sim_def)
  note p = process_missing_rule [OF act miss ex_stage1 smp]
  show "po_result (process ex_random_ops ex_rules [] ex_sim ex_gov_decision [ex_ent_decision]
     [ex_res_decision] ex_rng_high) = Inl KeyError" by (rule p(1))
  show "po_sim (process ex_random_ops ex_rules [] ex_sim ex_gov_decision [ex_ent_decision]
     [ex_res_decision] ex_rng_high) = ex_sim" by (rule p(2))
qed

text \<open>
  C2, evaluated at a failing input: the \<open>government_resident\<close> table has no
  \<open>service_provision\<close> entry, the government decides \<open>service_provision\<close> and there is one
  resident. \<open>process\<close> raises \<open>KeyError\<close>; the round of the driver then appends no
  round record and does not update the environment (\<open>update_count\<close> stays 0).
\<close>

theorem process_missing_rule_raises:
  "ex_rules ''government_resident'' \<noteq> None
   \<and> residents ex_sim \<noteq> []
   \<and> po_result (process ex_random_ops ex_rules [] ex_sim ex_gov_decision [ex_ent_decision]
        [ex_res_decision] ex_rng_high) = Inl KeyError
   \<and> dr_records (run_round ex_random_ops ex_rules 0 ex_gov_decision [ex_ent_decision]
        [ex_res_decision] ex_driver) = []
   \<and> update_count (environment (dr_sim (run_round ex_random_ops ex_rules 0 ex_gov_decision
        [ex_ent_decision] [ex_res_decision] ex_driver))) = 0"
proof -
  have d: "dr_history ex_driver = []" "dr_sim ex_driver = ex_sim" "dr_rng ex_driver = ex_rng_high"
      "dr_records ex_driver = []"
    by (simp_all add: ex_driver_def)
  have e: "po_result (process ex_random_ops ex_rules (dr_history ex_driver) (dr_sim ex_driver)
             ex_gov_decision [ex_ent_decision] [ex_res_decision] (dr_rng ex_driver)) = Inl KeyError"
    by (simp only: d ex_process)
  have u: "update_count (environment ex_sim) = 0"
    by (simp add: ex_sim_def ex_env_calm_def ex_env_def)
  have c: "ex_rules ''government_resident'' \<noteq> None" "residents ex_sim \<noteq> []"
    by (simp_all add: ex_rules_def ex_sim_def)
  from run_round_raises [OF e, of 0] show ?thesis
    by (simp only: d ex_process u c) simp
qed

end
